theory Spec2Isabelle
  imports Complex_Main "HOL-Library.Word"
begin

unbundle bit_operations_syntax

section \<open>The intermediate model (the XFile and its rows)\<close>

text \<open>
  Go's \<open>int\<close> is a 64-bit two's complement integer on the platforms the tool is built
  for: \<open>+\<close> wraps, comparisons are signed (\<open><s\<close>, \<open>\<le>s\<close>), \<open>&\<close> and \<open>|\<close> are \<open>AND\<close> and
  \<open>OR\<close>. Go's \<open>string\<close> is a byte sequence, here a \<open>char list\<close>.

  Go's \<open>float64\<close> has no counterpart in HOL. The rows are polymorphic in the type
  \<open>'f\<close> of their floating-point fields, and every function that computes with such a
  field takes the operations it uses (\<open>+\<close>, \<open><\<close>, \<open>==\<close>, literals, \<open>%.2f\<close>,
  \<open>strconv.ParseFloat\<close>) as a record \<open>F\<close>. Nothing is assumed about these operations,
  so what is proved holds for IEEE arithmetic as for any other.

  The selectors of a record share one name space, so the fields of each struct carry a
  prefix: \<open>st_\<close> for \<open>XStation\<close>, \<open>c_\<close> for \<open>XComponent\<close>, \<open>pr_\<close> for \<open>POSRow\<close>,
  \<open>pa_\<close> for \<open>PanelArrayRow\<close>, \<open>pc_\<close> for \<open>PanelCoordRow\<close>, \<open>go_\<close> for \<open>GlobalOffset\<close>.
\<close>

type_synonym goint = "64 word"

record 'f float64_ops =
  f_const :: "rat \<Rightarrow> 'f"
  f_add :: "'f \<Rightarrow> 'f \<Rightarrow> 'f"
  f_lt :: "'f \<Rightarrow> 'f \<Rightarrow> bool"
  f_eq :: "'f \<Rightarrow> 'f \<Rightarrow> bool"
  f_fmt2 :: "'f \<Rightarrow> string"
  f_parse :: "string \<Rightarrow> 'f option"

record GoTime =
  t_Year :: nat
  t_Month :: nat
  t_Day :: nat
  t_Hour :: nat
  t_Minute :: nat
  t_Second :: nat

record 'f POSRow =
  pr_Ref :: string
  pr_Val :: string
  pr_Package :: string
  pr_PosX :: 'f
  pr_PosY :: 'f
  pr_Rot :: 'f
  pr_Side :: string

record XFileMetadata =
  Created :: GoTime
  Modified :: GoTime

record 'f GlobalOffset =
  go_X :: 'f
  go_Y :: 'f

record 'f XComponent =
  c_No :: goint
  c_ID :: goint
  c_PHead :: goint
  c_STNo :: goint
  c_DeltX :: 'f
  c_DeltY :: 'f
  c_Angle :: 'f
  c_Height :: 'f
  c_Skip :: goint
  c_Speed :: goint
  c_Explain :: string
  c_Note :: string
  c_Delay :: goint
  c_Select :: bool
  c_DNP :: bool

record 'f XStation =
  st_No :: goint
  st_ID :: goint
  st_DeltX :: 'f
  st_DeltY :: 'f
  st_FeedRates :: goint
  st_Note :: string
  st_Height :: 'f
  st_Speed :: goint
  st_Status :: goint
  st_NPixSizeX :: goint
  st_NPixSizeY :: goint
  st_HeightTake :: 'f
  st_DelayTake :: goint
  st_NPullStripSpeed :: goint
  st_NThreshold :: goint
  st_NVisualRadio :: goint
  st_Select :: bool
  st_PHead :: goint
  st_DNP :: bool

record 'f PanelArrayRow =
  pa_No :: goint
  pa_ID :: goint
  pa_IntervalX :: 'f
  pa_IntervalY :: 'f
  pa_NumX :: goint
  pa_NumY :: goint

record 'f PanelCoordRow =
  pc_No :: goint
  pc_ID :: goint
  pc_DeltX :: 'f
  pc_DeltY :: 'f

record 'f XFile =
  Metadata :: XFileMetadata
  GlobalOffset :: "'f GlobalOffset"
  POSRows :: "'f POSRow list"
  Components :: "'f XComponent list"
  Stations :: "'f XStation list"
  PanelArray :: "'f PanelArrayRow list"
  PanelCoord :: "'f PanelCoordRow list"
  OriginalPOS :: string
  StackFiles :: "string list"

record 'f POSData =
  Headers :: "string list"
  Rows :: "'f POSRow list"

text \<open>\<open>NewXFile\<close>; the clock it reads (\<open>time.Now()\<close>) is the argument \<open>now\<close>.\<close>

definition NewXFile :: "'f float64_ops \<Rightarrow> GoTime \<Rightarrow> 'f XFile" where
  "NewXFile F now =
     \<lparr>Metadata = \<lparr>Created = now, Modified = now\<rparr>,
      GlobalOffset = \<lparr>go_X = f_const F 0, go_Y = f_const F 0\<rparr>,
      POSRows = [],
      Components = [],
      Stations = [],
      PanelArray = [\<lparr>pa_No = 0, pa_ID = 1, pa_IntervalX = f_const F 0,
                     pa_IntervalY = f_const F 0, pa_NumX = 1, pa_NumY = 1\<rparr>],
      PanelCoord = [\<lparr>pc_No = 0, pc_ID = 1, pc_DeltX = f_const F 0, pc_DeltY = f_const F 0\<rparr>],
      OriginalPOS = [],
      StackFiles = []\<rparr>"

section \<open>The Go library functions the code calls\<close>

text \<open>
  The functions of \<open>strings\<close>, \<open>strconv\<close>, \<open>fmt\<close>, \<open>regexp\<close> and \<open>encoding/csv\<close> that the
  code calls, on byte strings. Text is taken to be ASCII: \<open>TrimSpace\<close> strips the six
  ASCII white-space characters and \<open>ToLower\<close> maps \<open>A\<close>..\<open>Z\<close>; the Unicode spaces and
  letters beyond ASCII, which Go also treats, are left as they are.
\<close>

datatype goerror = Errorf string

definition CR :: char where "CR = CHR 0x0D"
definition LF :: char where "LF = CHR 0x0A"
definition CRLF :: string where "CRLF = [CR, LF]"
definition DQ :: char where "DQ = CHR 0x22"

definition isSpace :: "char \<Rightarrow> bool" where
  "isSpace c \<longleftrightarrow> c \<in> set [CHR 0x09, CHR 0x0A, CHR 0x0B, CHR 0x0C, CHR 0x0D, CHR '' '']"

definition TrimSpace :: "string \<Rightarrow> string" where
  "TrimSpace s = rev (dropWhile isSpace (rev (dropWhile isSpace s)))"

definition toLowerChar :: "char \<Rightarrow> char" where
  "toLowerChar c =
     (case map_of (zip ''ABCDEFGHIJKLMNOPQRSTUVWXYZ'' ''abcdefghijklmnopqrstuvwxyz'') c of
        Some l \<Rightarrow> l | None \<Rightarrow> c)"

definition ToLower :: "string \<Rightarrow> string" where
  "ToLower s = map toLowerChar s"

definition HasPrefix :: "string \<Rightarrow> string \<Rightarrow> bool" where
  "HasPrefix s p \<longleftrightarrow> take (length p) s = p"

definition HasSuffix :: "string \<Rightarrow> string \<Rightarrow> bool" where
  "HasSuffix s p \<longleftrightarrow> length p \<le> length s \<and> drop (length s - length p) s = p"



fun Contains :: "string \<Rightarrow> string \<Rightarrow> bool" where
  "Contains [] sub = (sub = [])"
| "Contains (c # cs) sub = (HasPrefix (c # cs) sub \<or> Contains cs sub)"

definition ContainsAny :: "string \<Rightarrow> string \<Rightarrow> bool" where
  "ContainsAny s chars \<longleftrightarrow> (\<exists>c \<in> set s. c \<in> set chars)"

text \<open>\<open>strings.ReplaceAll(s, "\r", "")\<close> and \<open>strings.ReplaceAll(s, "\"", "\"\"")\<close>.\<close>

definition removeCR :: "string \<Rightarrow> string" where
  "removeCR s = filter (\<lambda>c. c \<noteq> CR) s"

definition doubleQuotes :: "string \<Rightarrow> string" where
  "doubleQuotes s = concat (map (\<lambda>c. if c = DQ then [DQ, DQ] else [c]) s)"

text \<open>\<open>strings.Split(s, "\n")\<close> is \<open>splitWhen (\<lambda>c. c = LF) s\<close>: one piece more than there are
  separators.\<close>

fun splitWhen :: "(char \<Rightarrow> bool) \<Rightarrow> string \<Rightarrow> string list" where
  "splitWhen P [] = [[]]"
| "splitWhen P (c # cs) =
     (if P c then [] # splitWhen P cs
      else (let ls = splitWhen P cs in (c # hd ls) # tl ls))"

definition Split_LF :: "string \<Rightarrow> string list" where
  "Split_LF s = splitWhen (\<lambda>c. c = LF) s"

text \<open>\<open>strings.Join\<close>.\<close>

fun Join :: "string list \<Rightarrow> string \<Rightarrow> string" where
  "Join [] sep = []"
| "Join [x] sep = x"
| "Join (x # y # ys) sep = x @ sep @ Join (y # ys) sep"

text \<open>The verb \<open>%d\<close> of \<open>fmt.Sprintf\<close> on an \<open>int\<close>, and \<open>%02d\<close>.\<close>

fun showNat :: "nat \<Rightarrow> string" where
  "showNat n =
     (if n < 10 then [''0123456789'' ! n]
      else showNat (n div 10) @ [''0123456789'' ! (n mod 10)])"

declare showNat.simps [simp del]

definition fmtInt :: "goint \<Rightarrow> string" where
  "fmtInt w = (if sint w < 0 then CHR ''-'' # showNat (nat (- sint w)) else showNat (nat (sint w)))"

definition fmtIdx :: "nat \<Rightarrow> string" where
  "fmtIdx i = fmtInt (of_nat i)"

definition fmt02d :: "nat \<Rightarrow> string" where
  "fmt02d n = (if n < 10 then CHR ''0'' # showNat n else showNat n)"

text \<open>
  \<open>strconv.Atoi\<close>: an optional sign, then decimal digits only; an empty string, any other
  character, or a value outside the 64-bit range is an error (\<open>None\<close>).
\<close>

definition isDigit :: "char \<Rightarrow> bool" where
  "isDigit c \<longleftrightarrow> c \<in> set ''0123456789''"

definition digitVal :: "char \<Rightarrow> nat" where
  "digitVal c = (case map_of (zip ''0123456789'' [0, 1, 2, 3, 4, 5, 6, 7, 8, 9]) c of
                   Some d \<Rightarrow> d | None \<Rightarrow> 0)"

definition natOfDigits :: "string \<Rightarrow> nat" where
  "natOfDigits ds = foldl (\<lambda>n c. n * 10 + digitVal c) 0 ds"

definition Atoi :: "string \<Rightarrow> goint option" where
  "Atoi s =
     (case s of
        [] \<Rightarrow> None
      | c # cs \<Rightarrow>
          (let neg = (c = CHR ''-'');
               ds = (if c = CHR ''-'' \<or> c = CHR ''+'' then cs else s)
           in if ds = [] \<or> \<not> list_all isDigit ds then None
              else (let v = (if neg then - int (natOfDigits ds) else int (natOfDigits ds))
                    in if - (2 ^ 63) \<le> v \<and> v < 2 ^ 63 then Some (word_of_int v) else None)))"



text \<open>
  \<open>encoding/csv\<close>: \<open>csv.NewReader(strings.NewReader(line)).ReadAll()\<close> with
  \<open>FieldsPerRecord = -1\<close>, for a line without line breaks. A field that does not start
  with a quote runs to the next comma and must not hold a quote; a field that starts
  with a quote runs to the closing quote, \<open>""\<close> inside it is one quote, and the closing
  quote is followed by a comma or by the end of the line. \<open>None\<close> is the reader's error.
\<close>

fun csvRecord :: "string \<Rightarrow> string list option"
  and csvUnquoted :: "string \<Rightarrow> string \<Rightarrow> string list option"
  and csvQuoted :: "string \<Rightarrow> string \<Rightarrow> string list option"
where
  "csvRecord [] = Some [[]]"
| "csvRecord (c # cs) = (if c = DQ then csvQuoted cs [] else csvUnquoted (c # cs) [])"
| "csvUnquoted [] field = Some [field]"
| "csvUnquoted (c # cs) field =
     (if c = CHR '','' then map_option (\<lambda>fs. field # fs) (csvRecord cs)
      else if c = DQ then None
      else csvUnquoted cs (field @ [c]))"
| "csvQuoted [] field = None"
| "csvQuoted [c] field = (if c = DQ then Some [field] else None)"
| "csvQuoted (c # d # cs) field =
     (if c = DQ then
        (if d = DQ then csvQuoted cs (field @ [DQ])
         else if d = CHR '','' then map_option (\<lambda>fs. field # fs) (csvRecord cs)
         else None)
      else csvQuoted (d # cs) (field @ [c]))"

section \<open>The reconciliation engine (stack.go)\<close>

text \<open>
  \<open>noteToIdx\<close>: the map from a non-empty \<open>Note\<close> to the index of the station that
  carries it, built once from the stations the model has when the merge starts. A later
  station with the same note overwrites the entry of an earlier one.
\<close>

definition noteToIdx :: "'f XStation list \<Rightarrow> (string \<rightharpoonup> nat)" where
  "noteToIdx sts =
     fold (\<lambda>(i, s) m. if st_Note s \<noteq> [] then m(st_Note s \<mapsto> i) else m)
       (enumerate 0 sts) Map.empty"

text \<open>The inner loop \<open>maxID := 0; for _, s := range xf.Stations { if s.ID > maxID ... }\<close>.\<close>

definition maxID :: "'f XStation list \<Rightarrow> goint" where
  "maxID sts = fold (\<lambda>s m. if m <s st_ID s then st_ID s else m) sts 0"

text \<open>
  One round of the loop over the incoming stations in \<open>MergeStationsIntoXFile\<close>. The
  state is the station slice and the counter \<open>merged\<close>. An index found in the map is
  below the length of the slice (lemma \<open>noteToIdx_less\<close>, and the slice only grows), so
  the assignment \<open>xf.Stations[idx] = incoming\<close> never panics.
\<close>

definition mergeStation ::
  "(string \<rightharpoonup> nat) \<Rightarrow> 'f XStation \<Rightarrow> 'f XStation list \<times> goint \<Rightarrow> 'f XStation list \<times> goint"
where
  "mergeStation m incoming = (\<lambda>(sts, merged).
     (case m (st_Note incoming) of
        Some idx \<Rightarrow>
          (let existingID = st_ID (sts ! idx)
           in (sts[idx := incoming\<lparr>st_ID := existingID\<rparr>], merged + 1))
      | None \<Rightarrow>
          (sts @ [incoming\<lparr>st_ID := maxID sts + 1, st_No := of_nat (length sts)\<rparr>], merged)))"

text \<open>\<open>rederiveComponentSTNo\<close>: the map from note to id, then the loop over the components.\<close>

definition noteToID :: "'f XStation list \<Rightarrow> (string \<rightharpoonup> goint)" where
  "noteToID sts =
     fold (\<lambda>s m. if st_Note s \<noteq> [] then m(st_Note s \<mapsto> st_ID s) else m) sts Map.empty"

definition rederiveComponentSTNo :: "'f XFile \<Rightarrow> 'f XFile" where
  "rederiveComponentSTNo xf =
     (let m = noteToID (Stations xf)
      in xf\<lparr>Components :=
           map (\<lambda>c. case m (c_Explain c) of Some i \<Rightarrow> c\<lparr>c_STNo := i\<rparr> | None \<Rightarrow> c)
             (Components xf)\<rparr>)"

text \<open>\<open>MergeStationsIntoXFile\<close> returns the count \<open>merged\<close>; the model it mutates in
  place is returned beside it.\<close>

definition MergeStationsIntoXFile ::
  "'f XFile \<Rightarrow> 'f XStation list \<Rightarrow> string \<Rightarrow> 'f XFile \<times> goint"
where
  "MergeStationsIntoXFile xf stations filename =
     (let m = noteToIdx (Stations xf);
          (sts, merged) = fold (mergeStation m) stations (Stations xf, 0);
          xf1 = xf\<lparr>Stations := sts\<rparr>;
          xf2 = (if filename \<noteq> [] \<and> filename \<notin> set (StackFiles xf1)
                 then xf1\<lparr>StackFiles := StackFiles xf1 @ [filename]\<rparr> else xf1)
      in (rederiveComponentSTNo xf2, merged))"

section \<open>The feeder-format importer and exporter (stack.go)\<close>

text \<open>\<open>parseStationRow\<close>: the map from the lower-cased, trimmed column name to its index
  (a later column of the same name wins), and the three closures that read a cell.\<close>

definition stationColMap :: "string list \<Rightarrow> (string \<rightharpoonup> nat)" where
  "stationColMap header =
     fold (\<lambda>(i, h) m. m(ToLower (TrimSpace h) \<mapsto> i)) (enumerate 0 header) Map.empty"

definition getValue :: "(string \<rightharpoonup> nat) \<Rightarrow> string list \<Rightarrow> string \<Rightarrow> string" where
  "getValue colMap row name =
     (case colMap name of
        Some idx \<Rightarrow> (if idx < length row then TrimSpace (row ! idx) else [])
      | None \<Rightarrow> [])"

definition getInt :: "(string \<rightharpoonup> nat) \<Rightarrow> string list \<Rightarrow> string \<Rightarrow> goint \<Rightarrow> goint" where
  "getInt colMap row name def =
     (let v = getValue colMap row name
      in if v = [] then def else (case Atoi v of Some i \<Rightarrow> i | None \<Rightarrow> def))"

definition getFloat ::
  "'f float64_ops \<Rightarrow> (string \<rightharpoonup> nat) \<Rightarrow> string list \<Rightarrow> string \<Rightarrow> 'f \<Rightarrow> 'f"
where
  "getFloat F colMap row name def =
     (let v = getValue colMap row name
      in if v = [] then def else (case f_parse F v of Some x \<Rightarrow> x | None \<Rightarrow> def))"

definition parseStationRow :: "'f float64_ops \<Rightarrow> string list \<Rightarrow> string list \<Rightarrow> 'f XStation" where
  "parseStationRow F header row =
     (let colMap = stationColMap header;
          vx = getInt colMap row ''npixsizex'' (- 1);
          vy = getInt colMap row ''npixsizey'' (- 1)
      in \<lparr>st_No = getInt colMap row ''no.'' 0,
          st_ID = getInt colMap row ''id'' 1,
          st_DeltX = getFloat F colMap row ''deltx'' (f_const F 0),
          st_DeltY = getFloat F colMap row ''delty'' (f_const F 0),
          st_FeedRates = getInt colMap row ''feedrates'' 4,
          st_Note = getValue colMap row ''note'',
          st_Height = getFloat F colMap row ''height'' (f_const F (1/2)),
          st_Speed = getInt colMap row ''speed'' 0,
          st_Status = getInt colMap row ''status'' 4,
          st_NPixSizeX = (if 0 \<le>s vx then vx else getInt colMap row ''sizex'' 0),
          st_NPixSizeY = (if 0 \<le>s vy then vy else getInt colMap row ''sizey'' 0),
          st_HeightTake = getFloat F colMap row ''heighttake'' (f_const F 0),
          st_DelayTake = getInt colMap row ''delaytake'' 10,
          st_NPullStripSpeed = getInt colMap row ''npullstripspeed'' 85,
          st_NThreshold = getInt colMap row ''nthreshold'' 110,
          st_NVisualRadio = getInt colMap row ''nvisualradio'' 200,
          st_Select = False,
          st_PHead = getInt colMap row ''phead'' 1,
          st_DNP = False\<rparr>)"

definition defaultStackHeader :: "string list" where
  "defaultStackHeader =
     [''Table'', ''No.'', ''ID'', ''DeltX'', ''DeltY'', ''FeedRates'', ''Note'',
      ''Height'', ''Speed'', ''Status'', ''nPixSizeX'', ''nPixSizeY'', ''HeightTake'',
      ''DelayTake'', ''nPullStripSpeed'', ''nThreshold'', ''nVisualRadio'']"

text \<open>One round of the loop over the lines in \<open>ParseStack\<close>; the state is the header row
  seen last and the stations read so far. A line the CSV reader rejects is skipped.\<close>

definition parseStackLine ::
  "'f float64_ops \<Rightarrow> string \<Rightarrow> string list \<times> 'f XStation list \<Rightarrow> string list \<times> 'f XStation list"
where
  "parseStackLine F line0 = (\<lambda>(header, stations).
     (let line = TrimSpace line0; lower = ToLower line
      in if line = [] then (header, stations)
         else if HasPrefix lower ''separated'' \<or> HasPrefix lower ''file,''
                 \<or> HasPrefix lower ''pcbfile,'' \<or> HasPrefix lower ''date,''
                 \<or> HasPrefix lower ''time,'' \<or> HasPrefix lower ''panelype,''
         then (header, stations)
         else (case csvRecord line of
                 None \<Rightarrow> (header, stations)
               | Some row \<Rightarrow>
                   (case row of
                      [] \<Rightarrow> (header, stations)
                    | r0 # _ \<Rightarrow>
                        (let first = TrimSpace r0
                         in if first = ''Table'' then (row, stations)
                            else if first = ''Station'' then
                              (let header1 = (if header = [] then defaultStackHeader else header)
                               in (header1, stations @ [parseStationRow F header1 row]))
                            else (header, stations))))))"

text \<open>\<open>ParseStack\<close> on the text read from the reader (a failing read, the first error
  return, is outside the model).\<close>

definition ParseStack :: "'f float64_ops \<Rightarrow> string \<Rightarrow> goerror + 'f XStation list" where
  "ParseStack F text =
     (let lines = Split_LF (removeCR text);
          isDPV = (Contains (ToLower text) ''separated'' \<or> Contains (ToLower text) ''station'')
      in if \<not> isDPV
         then Inl (Errorf ''not a valid STACK file (missing 'separated' or 'Station' markers)'')
         else (let (header, stations) = fold (parseStackLine F) lines ([], [])
               in if stations = [] then Inl (Errorf ''no Station data found in stack file'')
                  else Inr stations))"

text \<open>
  \<open>MergeStacksFile\<close>: as \<open>MergeStationsIntoXFile\<close>, but a replaced station also keeps its
  \<open>No\<close>, the appended stations are counted, and the list of merged files is left alone.
  The result is the model, \<open>merged\<close>, \<open>added\<close> and the error.
\<close>

definition mergeStackStation ::
  "(string \<rightharpoonup> nat) \<Rightarrow> 'f XStation \<Rightarrow> 'f XStation list \<times> goint \<times> goint
     \<Rightarrow> 'f XStation list \<times> goint \<times> goint"
where
  "mergeStackStation m incoming = (\<lambda>(sts, merged, added).
     (case m (st_Note incoming) of
        Some idx \<Rightarrow>
          (let existingID = st_ID (sts ! idx); existingNo = st_No (sts ! idx)
           in (sts[idx := incoming\<lparr>st_ID := existingID, st_No := existingNo\<rparr>], merged + 1, added))
      | None \<Rightarrow>
          (sts @ [incoming\<lparr>st_ID := maxID sts + 1, st_No := of_nat (length sts)\<rparr>],
           merged, added + 1)))"

definition MergeStacksFile ::
  "'f float64_ops \<Rightarrow> 'f XFile \<Rightarrow> string \<Rightarrow> 'f XFile \<times> goint \<times> goint \<times> goerror option"
where
  "MergeStacksFile F xf content =
     (case ParseStack F content of
        Inl err \<Rightarrow> (xf, 0, 0, Some err)
      | Inr stations \<Rightarrow>
          (let m = noteToIdx (Stations xf);
               (sts, merged, added) = fold (mergeStackStation m) stations (Stations xf, 0, 0)
           in (rederiveComponentSTNo (xf\<lparr>Stations := sts\<rparr>), merged, added, None)))"

text \<open>\<open>stackCsvEscape\<close>, and one \<open>Station\<close> row of the two exports, as the format string
  \<open>"Station,%d,%d,%d,%.2f,%.2f,%d,%s,%.2f,%d,%d,%d,%d,%.2f,%d,%d,%d,%d\r\n"\<close> writes it.\<close>

definition stackCsvEscape :: "string \<Rightarrow> string" where
  "stackCsvEscape s =
     (if ContainsAny s [CHR '','', DQ, CR, LF] then [DQ] @ doubleQuotes s @ [DQ] else s)"

definition stackRowFields :: "'f float64_ops \<Rightarrow> nat \<Rightarrow> 'f XStation \<Rightarrow> string list" where
  "stackRowFields F i s =
     [''Station'', fmtIdx i, fmtInt (st_ID s), fmtInt (st_PHead s),
      f_fmt2 F (st_DeltX s), f_fmt2 F (st_DeltY s), fmtInt (st_FeedRates s),
      stackCsvEscape (st_Note s), f_fmt2 F (st_Height s), fmtInt (st_Speed s),
      fmtInt (st_Status s), fmtInt (st_NPixSizeX s), fmtInt (st_NPixSizeY s),
      f_fmt2 F (st_HeightTake s), fmtInt (st_DelayTake s), fmtInt (st_NPullStripSpeed s),
      fmtInt (st_NThreshold s), fmtInt (st_NVisualRadio s)]"

definition stackRow :: "'f float64_ops \<Rightarrow> nat \<Rightarrow> 'f XStation \<Rightarrow> string" where
  "stackRow F i s = Join (stackRowFields F i s) '','' @ CRLF"

definition stackTableHeader :: string where
  "stackTableHeader =
     ''Table,No.,ID,PHead,DeltX,DeltY,FeedRates,Note,Height,Speed,Status,nPixSizeX,nPixSizeY,HeightTake,DelayTake,nPullStripSpeed,nThreshold,nVisualRadio''
     @ CRLF"

text \<open>\<open>GenerateStack\<close>: the row number is the index \<open>i\<close> of the \<open>range\<close> loop over all
  stations, and the rows of the stations marked \<open>DNP\<close> are left out.\<close>

definition GenerateStack :: "'f float64_ops \<Rightarrow> 'f XFile \<Rightarrow> string" where
  "GenerateStack F xf =
     ''separated'' @ CRLF @ ''FILE,MaterialStack.stack'' @ CRLF @ ''PANELYPE,1'' @ CRLF @ CRLF
     @ stackTableHeader
     @ concat (map (\<lambda>(i, s). if st_DNP s then [] else stackRow F i s) (enumerate 0 (Stations xf)))"

text \<open>\<open>GenerateStacksFile\<close>: the row number is the counter \<open>idx\<close>, which only a written
  row advances. The state of the loop is the text so far and \<open>idx\<close>.\<close>

definition GenerateStacksFile :: "'f float64_ops \<Rightarrow> 'f XFile \<Rightarrow> string" where
  "GenerateStacksFile F xf =
     fst (fold (\<lambda>s (sb, idx). if st_DNP s then (sb, idx) else (sb @ stackRow F idx s, idx + 1))
            (Stations xf)
            (''separated'' @ CRLF @ ''FILE,material.stacks'' @ CRLF @ ''PANELYPE,1'' @ CRLF @ CRLF
             @ stackTableHeader, 0))"

section \<open>The validation engine (dpv.go)\<close>

record DPVValidationError =
  e_Type :: string
  e_Field :: string
  e_Row :: nat
  e_Message :: string

record DPVValidationResult =
  Valid :: bool
  Errors :: "DPVValidationError list"
  Warnings :: "DPVValidationError list"

text \<open>The two statement patterns of \<open>ValidateDPV\<close>: \<open>result.Errors = append(...)\<close> followed
  by \<open>result.Valid = false\<close>, and \<open>result.Warnings = append(...)\<close>.\<close>

definition addError :: "DPVValidationResult \<Rightarrow> DPVValidationError \<Rightarrow> DPVValidationResult" where
  "addError r e = r\<lparr>Errors := Errors r @ [e], Valid := False\<rparr>"

definition addWarning :: "DPVValidationResult \<Rightarrow> DPVValidationError \<Rightarrow> DPVValidationResult" where
  "addWarning r w = r\<lparr>Warnings := Warnings r @ [w]\<rparr>"

text \<open>\<open>for i, x := range xs { body }\<close> with the state passed through.\<close>

definition forRange :: "(nat \<Rightarrow> 'a \<Rightarrow> 'r \<Rightarrow> 'r) \<Rightarrow> 'a list \<Rightarrow> 'r \<Rightarrow> 'r" where
  "forRange body xs r = fold (\<lambda>(i, x). body i x) (enumerate 0 xs) r"

text \<open>The bodies of the loops over the active stations, in the order of the source. The
  first one also fills the map \<open>stationIDs\<close> (a \<open>map[int]bool\<close>: an absent key reads
  \<open>false\<close>).\<close>

definition checkStationID ::
  "nat \<Rightarrow> 'f XStation \<Rightarrow> (goint \<Rightarrow> bool) \<times> DPVValidationResult \<Rightarrow> (goint \<Rightarrow> bool) \<times> DPVValidationResult"
where
  "checkStationID i s = (\<lambda>(stationIDs, r).
     (let r1 = (if stationIDs (st_ID s) then
                  addError r \<lparr>e_Type = ''duplicate_station_id'', e_Field = ''Station.ID'', e_Row = i,
                    e_Message = ''Duplicate Station ID '' @ fmtInt (st_ID s) @ '' at row '' @ fmtIdx i\<rparr>
                else r);
          stationIDs1 = stationIDs(st_ID s := True);
          r2 = (if 100 \<le>s st_ID s then
                  addError r1 \<lparr>e_Type = ''reserved_station_id'', e_Field = ''Station.ID'', e_Row = i,
                    e_Message = ''Station ID '' @ fmtInt (st_ID s)
                      @ '' is reserved (IDs >= 100 are machine-reserved and will cause head crashes)''\<rparr>
                else r1);
          r3 = (if (30 \<le>s st_ID s \<and> st_ID s \<le>s 35) \<or> (65 \<le>s st_ID s \<and> st_ID s \<le>s 70) then
                  addWarning r2 \<lparr>e_Type = ''undefined_station_id'', e_Field = ''Station.ID'', e_Row = i,
                    e_Message = ''Station ID '' @ fmtInt (st_ID s)
                      @ '' is in an undefined range (valid: 1-29 left reels, 36-64 right reels, 71-84 front tray, 85-90 vibratory, 91-99 IC trays)''\<rparr>
                else r2)
      in (stationIDs1, r3)))"

definition checkStationNo :: "nat \<Rightarrow> 'f XStation \<Rightarrow> DPVValidationResult \<Rightarrow> DPVValidationResult" where
  "checkStationNo i s r =
     (if st_No s \<noteq> of_nat i then
        addWarning r \<lparr>e_Type = ''station_no_sequence'', e_Field = ''Station.No.'', e_Row = i,
          e_Message = ''Station No. '' @ fmtInt (st_No s) @ '' should be '' @ fmtIdx i
            @ '' (will be renumbered on export)''\<rparr>
      else r)"

definition checkStationStatus :: "nat \<Rightarrow> 'f XStation \<Rightarrow> DPVValidationResult \<Rightarrow> DPVValidationResult" where
  "checkStationStatus i s r =
     (if st_Status s <s 0 \<or> 15 <s st_Status s then
        addError r \<lparr>e_Type = ''invalid_station_status'', e_Field = ''Station.Status'', e_Row = i,
          e_Message = ''Station Status '' @ fmtInt (st_Status s) @ '' is invalid (must be 0-15)''\<rparr>
      else r)"

definition checkStationFeedRates :: "nat \<Rightarrow> 'f XStation \<Rightarrow> DPVValidationResult \<Rightarrow> DPVValidationResult" where
  "checkStationFeedRates i s r =
     (if st_FeedRates s \<noteq> 2 \<and> st_FeedRates s \<noteq> 4 \<and> st_FeedRates s \<noteq> 8 then
        addWarning r \<lparr>e_Type = ''unusual_feedrate'', e_Field = ''Station.FeedRates'', e_Row = i,
          e_Message = ''Station FeedRates '' @ fmtInt (st_FeedRates s)
            @ '' is unusual (typically 2, 4, or 8)''\<rparr>
      else r)"

definition checkStationSpeed :: "nat \<Rightarrow> 'f XStation \<Rightarrow> DPVValidationResult \<Rightarrow> DPVValidationResult" where
  "checkStationSpeed i s r =
     (if st_Speed s \<noteq> 0 \<and> st_Speed s <s 50 then
        addError r \<lparr>e_Type = ''invalid_station_speed'', e_Field = ''Station.Speed'', e_Row = i,
          e_Message = ''Station Speed '' @ fmtInt (st_Speed s)
            @ '' is invalid (must be 0 for 100%, or 50-100)''\<rparr>
      else r)"

definition checkStationPHead :: "nat \<Rightarrow> 'f XStation \<Rightarrow> DPVValidationResult \<Rightarrow> DPVValidationResult" where
  "checkStationPHead i s r =
     (if st_PHead s \<noteq> 1 \<and> st_PHead s \<noteq> 2 then
        addError r \<lparr>e_Type = ''invalid_station_phead'', e_Field = ''Station.PHead'', e_Row = i,
          e_Message = ''Station PHead '' @ fmtInt (st_PHead s)
            @ '' must be 1 (left nozzle) or 2 (right nozzle)''\<rparr>
      else r)"

definition checkStationThreshold :: "nat \<Rightarrow> 'f XStation \<Rightarrow> DPVValidationResult \<Rightarrow> DPVValidationResult" where
  "checkStationThreshold i s r =
     (if st_NThreshold s \<noteq> 0 \<and> (st_NThreshold s <s 1 \<or> 256 <s st_NThreshold s) then
        addError r \<lparr>e_Type = ''invalid_threshold'', e_Field = ''Station.nThreshold'', e_Row = i,
          e_Message = ''Station nThreshold '' @ fmtInt (st_NThreshold s)
            @ '' is invalid (must be 0 for default, or 1-256)''\<rparr>
      else r)"

definition checkStationHeight ::
  "'f float64_ops \<Rightarrow> nat \<Rightarrow> 'f XStation \<Rightarrow> DPVValidationResult \<Rightarrow> DPVValidationResult"
where
  "checkStationHeight F i s r =
     (let r1 = (if f_lt F (f_const F 5) (st_Height s) then
                  addError r \<lparr>e_Type = ''station_height_exceeded'', e_Field = ''Station.Height'',
                    e_Row = i,
                    e_Message = ''Station Height '' @ f_fmt2 F (st_Height s) @ '' exceeds maximum 5mm''\<rparr>
                else r)
      in if f_lt F (st_Height s) (f_const F 0) then
           addError r1 \<lparr>e_Type = ''station_height_negative'', e_Field = ''Station.Height'',
             e_Row = i,
             e_Message = ''Station Height '' @ f_fmt2 F (st_Height s) @ '' cannot be negative''\<rparr>
         else r1)"

text \<open>The loop with \<open>break\<close> that computes \<open>allStationCoordsZero\<close>.\<close>

definition allStationCoordsZero :: "'f float64_ops \<Rightarrow> 'f XStation list \<Rightarrow> bool" where
  "allStationCoordsZero F activeStations \<longleftrightarrow>
     \<not> list_ex (\<lambda>s. \<not> f_eq F (st_DeltX s) (f_const F 0) \<or> \<not> f_eq F (st_DeltY s) (f_const F 0))
         activeStations"

text \<open>The bodies of the loops over the active components.\<close>

definition checkComponentNo :: "nat \<Rightarrow> 'f XComponent \<Rightarrow> DPVValidationResult \<Rightarrow> DPVValidationResult" where
  "checkComponentNo i c r =
     (if c_No c \<noteq> of_nat i then
        addWarning r \<lparr>e_Type = ''component_no_sequence'', e_Field = ''EComponent.No.'', e_Row = i,
          e_Message = ''Component No. '' @ fmtInt (c_No c) @ '' should be '' @ fmtIdx i
            @ '' (will be renumbered on export)''\<rparr>
      else r)"

definition checkComponentPHead :: "nat \<Rightarrow> 'f XComponent \<Rightarrow> DPVValidationResult \<Rightarrow> DPVValidationResult" where
  "checkComponentPHead i c r =
     (if c_PHead c \<noteq> 1 \<and> c_PHead c \<noteq> 2 then
        addError r \<lparr>e_Type = ''invalid_phead'', e_Field = ''EComponent.PHead'', e_Row = i,
          e_Message = ''Component PHead '' @ fmtInt (c_PHead c) @ '' must be 1 or 2''\<rparr>
      else r)"

definition checkComponentSTNo ::
  "(goint \<Rightarrow> bool) \<Rightarrow> nat \<Rightarrow> 'f XComponent \<Rightarrow> DPVValidationResult \<Rightarrow> DPVValidationResult"
where
  "checkComponentSTNo stationIDs i c r =
     (if \<not> stationIDs (c_STNo c) then
        addError r \<lparr>e_Type = ''orphan_component'', e_Field = ''EComponent.STNo.'', e_Row = i,
          e_Message = ''Component STNo. '' @ fmtInt (c_STNo c)
            @ '' references non-existent Station ID''\<rparr>
      else r)"

text \<open>\<open>stationStatusMap\<close>, built the same way in \<open>ValidateDPV\<close> and in \<open>GenerateDPV\<close>.\<close>

definition stationStatusMap :: "'f XStation list \<Rightarrow> (goint \<rightharpoonup> goint)" where
  "stationStatusMap activeStations =
     fold (\<lambda>s m. m(st_ID s \<mapsto> st_Status s)) activeStations Map.empty"

definition checkComponentSkip ::
  "(goint \<rightharpoonup> goint) \<Rightarrow> nat \<Rightarrow> 'f XComponent \<Rightarrow> DPVValidationResult \<Rightarrow> DPVValidationResult"
where
  "checkComponentSkip statusMap i c r =
     (case statusMap (c_STNo c) of
        None \<Rightarrow> r
      | Some stationStatus \<Rightarrow>
          (let compHasVision = (c_Skip c AND 4 \<noteq> 0);
               stationHasVision = (stationStatus AND 4 \<noteq> 0)
           in if stationHasVision \<and> \<not> compHasVision then
                addWarning r \<lparr>e_Type = ''skip_status_mismatch'', e_Field = ''EComponent.Skip'',
                  e_Row = i,
                  e_Message = ''Component Skip='' @ fmtInt (c_Skip c)
                    @ '' will be updated to include vision flag from Station ''
                    @ fmtInt (c_STNo c) @ '' (Status='' @ fmtInt stationStatus @ '')''\<rparr>
              else r))"

definition checkComponentCoords ::
  "'f float64_ops \<Rightarrow> nat \<Rightarrow> 'f XComponent \<Rightarrow> DPVValidationResult \<Rightarrow> DPVValidationResult"
where
  "checkComponentCoords F i c r =
     (if f_lt F (c_DeltX c) (f_const F 0) \<or> f_lt F (c_DeltY c) (f_const F 0) then
        addWarning r \<lparr>e_Type = ''negative_coordinates'', e_Field = ''EComponent.DeltX/DeltY'',
          e_Row = i,
          e_Message = ''Component has negative coordinates ('' @ f_fmt2 F (c_DeltX c) @ '', ''
            @ f_fmt2 F (c_DeltY c) @ '') - all positions should be positive''\<rparr>
      else r)"

definition checkComponentAngle ::
  "'f float64_ops \<Rightarrow> nat \<Rightarrow> 'f XComponent \<Rightarrow> DPVValidationResult \<Rightarrow> DPVValidationResult"
where
  "checkComponentAngle F i c r =
     (if f_lt F (c_Angle c) (f_const F (- 180)) \<or> f_lt F (f_const F 180) (c_Angle c) then
        addWarning r \<lparr>e_Type = ''angle_out_of_range'', e_Field = ''EComponent.Angle'', e_Row = i,
          e_Message = ''Component Angle '' @ f_fmt2 F (c_Angle c)
            @ '' should be between -180 and 180''\<rparr>
      else r)"

definition checkComponentSpeed :: "nat \<Rightarrow> 'f XComponent \<Rightarrow> DPVValidationResult \<Rightarrow> DPVValidationResult" where
  "checkComponentSpeed i c r =
     (if c_Speed c \<noteq> 0 \<and> c_Speed c <s 50 then
        addError r \<lparr>e_Type = ''invalid_component_speed'', e_Field = ''EComponent.Speed'', e_Row = i,
          e_Message = ''Component Speed '' @ fmtInt (c_Speed c)
            @ '' is invalid (must be 0 for 100%, or 50-100)''\<rparr>
      else r)"

text \<open>The inner loop of the height check stops (\<open>break\<close>) at the first station it warns
  about.\<close>

definition checkComponentHeight ::
  "'f float64_ops \<Rightarrow> 'f XStation list \<Rightarrow> nat \<Rightarrow> 'f XComponent \<Rightarrow> DPVValidationResult
     \<Rightarrow> DPVValidationResult"
where
  "checkComponentHeight F activeStations i c r =
     (case find (\<lambda>s. st_ID s = c_STNo c \<and> \<not> f_eq F (c_Height c) (st_Height s)) activeStations of
        Some s \<Rightarrow>
          addWarning r \<lparr>e_Type = ''height_mismatch'', e_Field = ''EComponent.Height'', e_Row = i,
            e_Message = ''Component Height '' @ f_fmt2 F (c_Height c) @ '' differs from Station ''
              @ fmtInt (st_ID s) @ '' Height '' @ f_fmt2 F (st_Height s)\<rparr>
      | None \<Rightarrow> r)"

text \<open>The loop that computes \<open>maxX\<close> and \<open>maxY\<close>, both starting at zero.\<close>

definition maxPosition :: "'f float64_ops \<Rightarrow> 'f GlobalOffset \<Rightarrow> 'f XComponent list \<Rightarrow> 'f \<times> 'f" where
  "maxPosition F off activeComponents =
     fold (\<lambda>c (maxX, maxY).
            (let x = f_add F (c_DeltX c) (go_X off); y = f_add F (c_DeltY c) (go_Y off)
             in (if f_lt F maxX x then x else maxX, if f_lt F maxY y then y else maxY)))
       activeComponents (f_const F 0, f_const F 0)"

definition checkPCBSize ::
  "'f float64_ops \<Rightarrow> 'f \<times> 'f \<Rightarrow> DPVValidationResult \<Rightarrow> DPVValidationResult"
where
  "checkPCBSize F = (\<lambda>(maxX, maxY) r.
     (let r1 = (if f_lt F (f_const F 345) maxX then
                  addWarning r \<lparr>e_Type = ''pcb_size_x'', e_Field = ''EComponent.DeltX'', e_Row = 0,
                    e_Message = ''Component X position '' @ f_fmt2 F maxX
                      @ ''mm exceeds PCB max width of 345mm (CHM-T48VB limit)''\<rparr>
                else r)
      in if f_lt F (f_const F 355) maxY then
           addWarning r1 \<lparr>e_Type = ''pcb_size_y'', e_Field = ''EComponent.DeltY'', e_Row = 0,
             e_Message = ''Component Y position '' @ f_fmt2 F maxY
               @ ''mm exceeds PCB max length of 355mm (CHM-T48VB limit)''\<rparr>
         else r1))"

definition checkPanelArray :: "'f PanelArrayRow list \<Rightarrow> DPVValidationResult \<Rightarrow> DPVValidationResult" where
  "checkPanelArray panelArray r =
     (case panelArray of
        [] \<Rightarrow>
          addError r \<lparr>e_Type = ''missing_panel_array'', e_Field = ''Panel_Array'', e_Row = 0,
            e_Message = ''Panel_Array table is required - machine won't allow PCB calibration without it''\<rparr>
      | pa # _ \<Rightarrow>
          (if pa_NumX pa <s 1 \<or> pa_NumY pa <s 1 then
             addError r \<lparr>e_Type = ''invalid_panel_array'', e_Field = ''Panel_Array.NumX/NumY'',
               e_Row = 0,
               e_Message = ''Panel_Array NumX ('' @ fmtInt (pa_NumX pa) @ '') and NumY (''
                 @ fmtInt (pa_NumY pa) @ '') must be at least 1''\<rparr>
           else r))"

definition checkFilename :: "string \<Rightarrow> DPVValidationResult \<Rightarrow> DPVValidationResult" where
  "checkFilename filename r =
     (if filename = [] then
        addError r \<lparr>e_Type = ''missing_filename'', e_Field = ''FILE'', e_Row = 0,
          e_Message = ''Output filename is required''\<rparr>
      else if \<not> HasSuffix (ToLower filename) ''.dpv'' then
        addWarning r \<lparr>e_Type = ''filename_extension'', e_Field = ''FILE'', e_Row = 0,
          e_Message = ''Filename '' @ [CHR 0x27] @ filename @ [CHR 0x27]
            @ '' should have .dpv extension''\<rparr>
      else r)"

text \<open>\<open>ValidateDPV\<close>: the checks in the order of the source, each working on the result of
  the one before.\<close>

definition ValidateDPV :: "'f float64_ops \<Rightarrow> 'f XFile \<Rightarrow> string \<Rightarrow> DPVValidationResult" where
  "ValidateDPV F xf filename =
     (let result = \<lparr>Valid = True, Errors = [], Warnings = []\<rparr>;
          activeComponents = filter (\<lambda>c. \<not> c_DNP c) (Components xf);
          activeStations = filter (\<lambda>s. \<not> st_DNP s) (Stations xf);
          (stationIDs, result) = forRange checkStationID activeStations (\<lambda>_. False, result);
          result = forRange checkStationNo activeStations result;
          result = forRange checkStationStatus activeStations result;
          result = forRange checkStationFeedRates activeStations result;
          result = forRange checkStationSpeed activeStations result;
          result = forRange checkStationPHead activeStations result;
          result = forRange checkStationThreshold activeStations result;
          result = forRange (checkStationHeight F) activeStations result;
          result = (if allStationCoordsZero F activeStations \<and> 0 < length activeStations then
                      addWarning result \<lparr>e_Type = ''stations_need_calibration'',
                        e_Field = ''Station.DeltX/DeltY'', e_Row = 0,
                        e_Message = ''All Material Stack coordinates are zero. You will need to calibrate feeder positions on the machine before running.''\<rparr>
                    else result);
          result = forRange checkComponentNo activeComponents result;
          result = forRange checkComponentPHead activeComponents result;
          result = forRange (checkComponentSTNo stationIDs) activeComponents result;
          result = forRange (checkComponentSkip (stationStatusMap activeStations)) activeComponents result;
          result = forRange (checkComponentCoords F) activeComponents result;
          result = forRange (checkComponentAngle F) activeComponents result;
          result = forRange checkComponentSpeed activeComponents result;
          result = (if length activeComponents = 1 then
                      addWarning result \<lparr>e_Type = ''single_component'', e_Field = ''EComponent'',
                        e_Row = 0,
                        e_Message = ''Only 1 component defined - machine requires at least 2 components for LR fiducial calibration to work (known bug)''\<rparr>
                    else result);
          result = forRange (checkComponentHeight F activeStations) activeComponents result;
          result = checkPCBSize F (maxPosition F (GlobalOffset xf) activeComponents) result;
          result = checkPanelArray (PanelArray xf) result;
          result = checkFilename filename result
      in result)"

section \<open>The target-format generator (dpv.go)\<close>

definition csvEscape :: "string \<Rightarrow> string" where
  "csvEscape s =
     (if ContainsAny s [CHR '','', DQ, CR, LF] then [DQ] @ doubleQuotes s @ [DQ] else s)"

text \<open>The header lines; the clock (\<open>time.Now()\<close>) is the argument \<open>now\<close>.\<close>

definition dpvHeader :: "GoTime \<Rightarrow> 'f XFile \<Rightarrow> string \<Rightarrow> string" where
  "dpvHeader now xf filename =
     ''separated'' @ CRLF
     @ ''FILE,'' @ filename @ CRLF
     @ ''PCBFILE,'' @ OriginalPOS xf @ CRLF
     @ ''DATE,'' @ showNat (t_Year now) @ ''/'' @ fmt02d (t_Month now) @ ''/'' @ fmt02d (t_Day now) @ CRLF
     @ ''TIME,'' @ fmt02d (t_Hour now) @ '':'' @ fmt02d (t_Minute now) @ '':'' @ fmt02d (t_Second now) @ CRLF
     @ ''PANELYPE,1'' @ CRLF"

definition dpvStationFields :: "'f float64_ops \<Rightarrow> nat \<Rightarrow> 'f XStation \<Rightarrow> string list" where
  "dpvStationFields F i s =
     [''Station'', fmtIdx i, fmtInt (st_ID s), f_fmt2 F (st_DeltX s), f_fmt2 F (st_DeltY s),
      fmtInt (st_FeedRates s), csvEscape (st_Note s), f_fmt2 F (st_Height s), fmtInt (st_Speed s),
      fmtInt (st_Status s), fmtInt (st_NPixSizeX s), fmtInt (st_NPixSizeY s),
      f_fmt2 F (st_HeightTake s), fmtInt (st_DelayTake s), fmtInt (st_NPullStripSpeed s),
      fmtInt (st_NThreshold s), fmtInt (st_NVisualRadio s)]"

definition dpvStationTable :: "'f float64_ops \<Rightarrow> 'f XStation list \<Rightarrow> string" where
  "dpvStationTable F activeStations =
     CRLF
     @ ''Table,No.,ID,DeltX,DeltY,FeedRates,Note,Height,Speed,Status,nPixSizeX,nPixSizeY,HeightTake,DelayTake,nPullStripSpeed,nThreshold,nVisualRadio'' @ CRLF
     @ concat (map (\<lambda>(i, s). Join (dpvStationFields F i s) '','' @ CRLF) (enumerate 0 activeStations))"

definition dpvPanelArrayTable :: "'f float64_ops \<Rightarrow> 'f PanelArrayRow list \<Rightarrow> string" where
  "dpvPanelArrayTable F panelArray =
     CRLF
     @ ''Table,No.,ID,IntervalX,IntervalY,NumX,NumY'' @ CRLF
     @ concat (map (\<lambda>(i, pa).
         Join [''Panel_Array'', fmtIdx i, fmtInt (pa_ID pa), f_fmt2 F (pa_IntervalX pa),
               f_fmt2 F (pa_IntervalY pa), fmtInt (pa_NumX pa), fmtInt (pa_NumY pa)] '','' @ CRLF)
         (enumerate 0 panelArray))"

definition dpvPanelCoordTable :: "'f float64_ops \<Rightarrow> 'f PanelCoordRow list \<Rightarrow> string" where
  "dpvPanelCoordTable F panelCoord =
     CRLF
     @ ''Table,No.,ID,DeltX,DeltY'' @ CRLF
     @ concat (map (\<lambda>(i, pc).
         Join [''Panel_Coord'', fmtIdx i, fmtInt (pc_ID pc), f_fmt2 F (pc_DeltX pc),
               f_fmt2 F (pc_DeltY pc)] '','' @ CRLF)
         (enumerate 0 panelCoord))"

text \<open>The body of the loop over the active components: the offset, the auto-fix of
  \<open>Skip\<close>, and the fields that \<open>Sprintf\<close> writes.\<close>

definition autoFixSkip :: "(goint \<rightharpoonup> goint) \<Rightarrow> 'f XComponent \<Rightarrow> goint" where
  "autoFixSkip statusMap c =
     (let skip = c_Skip c
      in case statusMap (c_STNo c) of
           Some stationStatus \<Rightarrow>
             (let skip1 = (if stationStatus AND 4 \<noteq> 0 \<and> skip AND 4 = 0 then skip OR 4 else skip);
                  skip2 = (if stationStatus AND 2 \<noteq> 0 \<and> skip1 AND 2 = 0 then skip1 OR 2 else skip1)
              in skip2)
         | None \<Rightarrow> skip)"

definition ecomponentFields ::
  "'f float64_ops \<Rightarrow> 'f GlobalOffset \<Rightarrow> (goint \<rightharpoonup> goint) \<Rightarrow> nat \<Rightarrow> 'f XComponent \<Rightarrow> string list"
where
  "ecomponentFields F off statusMap i c =
     (let deltX = f_add F (c_DeltX c) (go_X off);
          deltY = f_add F (c_DeltY c) (go_Y off);
          skip = autoFixSkip statusMap c
      in [''EComponent'', fmtIdx i, fmtInt (c_ID c), fmtInt (c_PHead c), fmtInt (c_STNo c),
          f_fmt2 F deltX, f_fmt2 F deltY, f_fmt2 F (c_Angle c), f_fmt2 F (c_Height c),
          fmtInt skip, fmtInt (c_Speed c), csvEscape (c_Explain c), csvEscape (c_Note c),
          fmtInt (c_Delay c)])"

definition dpvEComponentTable ::
  "'f float64_ops \<Rightarrow> 'f GlobalOffset \<Rightarrow> (goint \<rightharpoonup> goint) \<Rightarrow> 'f XComponent list \<Rightarrow> string"
where
  "dpvEComponentTable F off statusMap activeComponents =
     CRLF
     @ ''Table,No.,ID,PHead,STNo.,DeltX,DeltY,Angle,Height,Skip,Speed,Explain,Note,Delay'' @ CRLF
     @ concat (map (\<lambda>(i, c). Join (ecomponentFields F off statusMap i c) '','' @ CRLF)
                (enumerate 0 activeComponents))"

text \<open>The four tables with fixed content.\<close>

definition dpvICTrayTable :: string where
  "dpvICTrayTable = CRLF @ ''Table,No.,ID,CenterX,CenterY,IntervalX,IntervalY,NumX,NumY,Start'' @ CRLF"

definition dpvPcbCalibTable :: string where
  "dpvPcbCalibTable = CRLF @ ''Table,No.,nType,nAlg,nFinished'' @ CRLF @ ''PcbCalib,0,0,0,0'' @ CRLF"

definition dpvCalibPointTable :: string where
  "dpvCalibPointTable =
     CRLF @ ''Table,No.,ID,offsetX,offsetY,Note,Model,Type,DevX,DevY'' @ CRLF
     @ ''CalibPoint,0,1,0,0,,0,0,0,0'' @ CRLF
     @ ''CalibPoint,1,2,0,0,,0,0,0,0'' @ CRLF
     @ ''CalibPoint,2,3,0,0,,0,0,0,0'' @ CRLF"

definition dpvCalibFatorTable :: string where
  "dpvCalibFatorTable =
     CRLF
     @ ''Table,No.,PCBX1,PCBY1,PCBX2,PCBY2,PCBX3,PCBY3,SMTX1,SMTY1,SMTX2,SMTY2,SMTX3,SMTY3,DeltaAngle'' @ CRLF
     @ ''CalibFator,0,0,0,0,0,0,0,0,0,0,0,0,0,0'' @ CRLF"

text \<open>The two filters at the start of \<open>GenerateDPV\<close>: the components not marked \<open>DNP\<close>,
  and the stations not marked \<open>DNP\<close> that one of these components refers to
  (\<open>usedStationIDs\<close> is a \<open>map[int]bool\<close>).\<close>

definition dpvActiveComponents :: "'f XFile \<Rightarrow> 'f XComponent list" where
  "dpvActiveComponents xf = filter (\<lambda>c. \<not> c_DNP c) (Components xf)"

definition dpvActiveStations :: "'f XFile \<Rightarrow> 'f XStation list" where
  "dpvActiveStations xf =
     (let usedStationIDs = fold (\<lambda>c m. m(c_STNo c := True)) (dpvActiveComponents xf) (\<lambda>_. False)
      in filter (\<lambda>s. \<not> st_DNP s \<and> usedStationIDs (st_ID s)) (Stations xf))"

text \<open>
  \<open>GenerateDPV\<close> returns a string and an error, and gets the model by pointer. The
  result here is the triple of the string, the error (\<open>None\<close> for \<open>nil\<close>) and the model
  as the call leaves it. Neither \<open>GenerateDPV\<close> nor \<open>ValidateDPV\<close> assigns to a field of
  \<open>xf\<close> or to an element of its slices: the filters copy the rows into new slices.
\<close>

definition GenerateDPV ::
  "'f float64_ops \<Rightarrow> GoTime \<Rightarrow> 'f XFile \<Rightarrow> string \<Rightarrow> string \<times> goerror option \<times> 'f XFile"
where
  "GenerateDPV F now xf filename =
     (let validation = ValidateDPV F xf filename
      in if \<not> Valid validation then
           ([], Some (Errorf (''DPV validation failed:'' @ [LF]
                              @ Join (map e_Message (Errors validation)) [LF])), xf)
         else
           (let activeComponents = dpvActiveComponents xf;
                activeStations = dpvActiveStations xf
            in (dpvHeader now xf filename
                @ dpvStationTable F activeStations
                @ dpvPanelArrayTable F (PanelArray xf)
                @ dpvPanelCoordTable F (PanelCoord xf)
                @ dpvEComponentTable F (GlobalOffset xf) (stationStatusMap activeStations)
                    activeComponents
                @ dpvICTrayTable
                @ dpvPcbCalibTable
                @ dpvCalibPointTable
                @ dpvCalibFatorTable, None, xf)))"

section \<open>The source-format importer (pos.go)\<close>


















section \<open>From the placement export to the model (pos.go)\<close>

text \<open>The first loop of \<open>ConvertPOSToXFile\<close>: the state is the map \<open>valToStationID\<close>
  and the slice \<open>uniqueVals\<close>.\<close>

definition collectVal ::
  "'f POSRow \<Rightarrow> (string \<rightharpoonup> goint) \<times> string list \<Rightarrow> (string \<rightharpoonup> goint) \<times> string list"
where
  "collectVal row = (\<lambda>(valToStationID, uniqueVals).
     if pr_Val row \<noteq> [] then
       (if valToStationID (pr_Val row) = None
        then (let stationID = of_nat (length uniqueVals) + 1
              in (valToStationID(pr_Val row \<mapsto> stationID), uniqueVals @ [pr_Val row]))
        else (valToStationID, uniqueVals))
     else (valToStationID, uniqueVals))"

definition collectVals :: "'f POSRow list \<Rightarrow> (string \<rightharpoonup> goint) \<times> string list" where
  "collectVals rows = fold collectVal rows (Map.empty, [])"

definition newStation :: "'f float64_ops \<Rightarrow> nat \<Rightarrow> string \<Rightarrow> 'f XStation" where
  "newStation F idx val =
     \<lparr>st_No = of_nat idx, st_ID = of_nat idx + 1, st_DeltX = f_const F 0, st_DeltY = f_const F 0,
      st_FeedRates = 4, st_Note = val, st_Height = f_const F (1/2), st_Speed = 0, st_Status = 4,
      st_NPixSizeX = 0, st_NPixSizeY = 0, st_HeightTake = f_const F 0, st_DelayTake = 10,
      st_NPullStripSpeed = 85, st_NThreshold = 110, st_NVisualRadio = 200,
      st_Select = False, st_PHead = 1, st_DNP = False\<rparr>"

definition rowNote :: "'f POSRow \<Rightarrow> string" where
  "rowNote row =
     (if pr_Ref row \<noteq> [] \<and> pr_Package row \<noteq> [] then pr_Ref row @ '' - '' @ pr_Package row
      else if pr_Ref row \<noteq> [] then pr_Ref row
      else if pr_Package row \<noteq> [] then pr_Package row
      else [])"

definition newComponent ::
  "'f float64_ops \<Rightarrow> (string \<rightharpoonup> goint) \<Rightarrow> nat \<Rightarrow> 'f POSRow \<Rightarrow> 'f XComponent"
where
  "newComponent F valToStationID idx row =
     (let stNo = (case valToStationID (pr_Val row) of Some i \<Rightarrow> i | None \<Rightarrow> 1)
      in \<lparr>c_No = of_nat idx, c_ID = of_nat idx + 1, c_PHead = 1, c_STNo = stNo,
          c_DeltX = pr_PosX row, c_DeltY = pr_PosY row, c_Angle = pr_Rot row,
          c_Height = f_const F (1/2), c_Skip = 4, c_Speed = 0, c_Explain = pr_Val row,
          c_Note = rowNote row, c_Delay = 0, c_Select = False, c_DNP = False\<rparr>)"

definition ConvertPOSToXFile ::
  "'f float64_ops \<Rightarrow> GoTime \<Rightarrow> 'f POSData \<Rightarrow> string \<Rightarrow> 'f XFile"
where
  "ConvertPOSToXFile F now pos filename =
     (let xf = (NewXFile F now)\<lparr>OriginalPOS := filename, POSRows := Rows pos\<rparr>;
          (valToStationID, uniqueVals) = collectVals (Rows pos)
      in xf\<lparr>Stations := Stations xf @ map (\<lambda>(idx, val). newStation F idx val) (enumerate 0 uniqueVals),
            Components := Components xf
              @ map (\<lambda>(idx, row). newComponent F valToStationID idx row) (enumerate 0 (Rows pos))\<rparr>)"

section \<open>An instance of the floating-point operations, and sample rows\<close>

text \<open>
  To run the model on concrete inputs: the operations on the rationals, exact. \<open>%.2f\<close>
  rounds to two places, a tie to the even digit, and keeps the sign; the parser reads
  plain decimal numbers (an optional sign, digits, an optional point and digits), a
  part of what \<open>strconv.ParseFloat\<close> accepts.
\<close>

definition fmt2_rat :: "rat \<Rightarrow> string" where
  "fmt2_rat x =
     (let a = \<bar>x\<bar> * 100;
          n = \<lfloor>a\<rfloor>;
          frac = a - of_int n;
          m = nat (if 1/2 < frac \<or> (frac = 1/2 \<and> odd n) then n + 1 else n);
          body = showNat (m div 100) @ ''.'' @ fmt02d (m mod 100)
      in if x < 0 then CHR ''-'' # body else body)"

definition parse_rat :: "string \<Rightarrow> rat option" where
  "parse_rat s =
     (let neg = (s \<noteq> [] \<and> hd s = CHR ''-'');
          body = (if s \<noteq> [] \<and> (hd s = CHR ''-'' \<or> hd s = CHR ''+'') then tl s else s);
          ip = takeWhile isDigit body;
          rest = dropWhile isDigit body;
          fp = (if rest \<noteq> [] \<and> hd rest = CHR ''.'' then tl rest else [])
      in if (rest = [] \<and> ip \<noteq> [])
            \<or> (rest \<noteq> [] \<and> hd rest = CHR ''.'' \<and> list_all isDigit fp \<and> (ip \<noteq> [] \<or> fp \<noteq> []))
         then (let v = of_nat (natOfDigits ip) + of_nat (natOfDigits fp) / 10 ^ length fp
               in Some (if neg then - v else v))
         else None)"

definition F_rat :: "rat float64_ops" where
  "F_rat = \<lparr>f_const = (\<lambda>r. r), f_add = (+), f_lt = (<), f_eq = (=),
            f_fmt2 = fmt2_rat, f_parse = parse_rat\<rparr>"

definition sampleTime :: GoTime where
  "sampleTime = \<lparr>t_Year = 2025, t_Month = 3, t_Day = 9, t_Hour = 14, t_Minute = 5, t_Second = 0\<rparr>"

text \<open>A station and a component as \<open>ConvertPOSToXFile\<close> makes them for the value
  \<open>10k\<close>, and the empty model.\<close>

definition sampleStation :: "rat XStation" where
  "sampleStation = newStation F_rat 0 ''10k''"

definition sampleComponent :: "rat XComponent" where
  "sampleComponent =
     newComponent F_rat [''10k'' \<mapsto> 1] 0
       \<lparr>pr_Ref = ''R1'', pr_Val = ''10k'', pr_Package = ''0603'', pr_PosX = 1, pr_PosY = 2,
        pr_Rot = 0, pr_Side = ''top''\<rparr>"

definition sampleFile :: "rat XFile" where
  "sampleFile = NewXFile F_rat sampleTime"

text \<open>A job of one feeder with the vacuum and vision bits set and one placement whose
  stored flags are 1, with the offset (10, 20).\<close>

definition sampleJob :: "rat XFile" where
  "sampleJob = sampleFile\<lparr>GlobalOffset := \<lparr>go_X = 10, go_Y = 20\<rparr>,
                          Stations := [sampleStation\<lparr>st_Status := 6\<rparr>],
                          Components := [sampleComponent\<lparr>c_Skip := 1\<rparr>]\<rparr>"



section \<open>The merge in the words of the specification\<close>

text \<open>
  The feeder an incoming note matches: the last feeder with that note among the
  feeders \<open>sts\<close> the model held when the merge began; the empty note matches nothing.
\<close>

definition matchingFeeder :: "'f XStation list \<Rightarrow> string \<Rightarrow> nat option" where
  "matchingFeeder sts n =
     (if n = [] then None
      else (let js = filter (\<lambda>i. st_Note (sts ! i) = n) [0..<length sts]
            in if js = [] then None else Some (last js)))"

text \<open>The fresh id: the greatest of 0 and the ids present, read as signed numbers, plus
  one (in 64-bit arithmetic).\<close>

definition freshID :: "'f XStation list \<Rightarrow> goint" where
  "freshID sts = word_of_int (Max (insert 0 (sint ` st_ID ` set sts))) + 1"

text \<open>
  One incoming feeder: it replaces the feeder it matches, which keeps its \<open>id\<close> (and its
  \<open>No\<close> when \<open>keepNo\<close>, the variant for configuration backups); or it is appended with a
  fresh \<open>id\<close> and the number of feeders as \<open>No\<close>.
\<close>

definition mergeFeeder ::
  "bool \<Rightarrow> 'f XStation list \<Rightarrow> 'f XStation list \<Rightarrow> 'f XStation \<Rightarrow> 'f XStation list"
where
  "mergeFeeder keepNo sts0 sts incoming =
     (case matchingFeeder sts0 (st_Note incoming) of
        Some i \<Rightarrow>
          sts[i := incoming\<lparr>st_ID := st_ID (sts ! i),
                            st_No := (if keepNo then st_No (sts ! i) else st_No incoming)\<rparr>]
      | None \<Rightarrow> sts @ [incoming\<lparr>st_ID := freshID sts, st_No := of_nat (length sts)\<rparr>])"

definition mergeFeeders ::
  "bool \<Rightarrow> 'f XStation list \<Rightarrow> 'f XStation list \<Rightarrow> 'f XStation list"
where
  "mergeFeeders keepNo sts0 incs = fold (\<lambda>incoming sts. mergeFeeder keepNo sts0 sts incoming) incs sts0"

text \<open>A placement whose value label matches a feeder of the merged list gets the \<open>id\<close> of
  that feeder as its \<open>feederRef\<close>.\<close>

definition rederiveFeederRef :: "'f XStation list \<Rightarrow> 'f XComponent \<Rightarrow> 'f XComponent" where
  "rederiveFeederRef sts c =
     (case matchingFeeder sts (c_Explain c) of
        Some i \<Rightarrow> c\<lparr>c_STNo := st_ID (sts ! i)\<rparr>
      | None \<Rightarrow> c)"

definition matchedCount :: "'f XStation list \<Rightarrow> 'f XStation list \<Rightarrow> nat" where
  "matchedCount sts0 incs = length (filter (\<lambda>incoming. matchingFeeder sts0 (st_Note incoming) \<noteq> None) incs)"

definition addedCount :: "'f XStation list \<Rightarrow> 'f XStation list \<Rightarrow> nat" where
  "addedCount sts0 incs = length (filter (\<lambda>incoming. matchingFeeder sts0 (st_Note incoming) = None) incs)"

section \<open>The validation rules in the words of the specification\<close>

text \<open>The constraints on one feeder other than those on its \<open>id\<close> (rules 4, 6, 7, 8 and 9:
  the status flags, the speed, the preferred head, the threshold and the height), and
  those on one placement other than its reference (rules 12 and 17).\<close>

definition stationConstraints :: "'f float64_ops \<Rightarrow> 'f XStation \<Rightarrow> bool" where
  "stationConstraints F s \<longleftrightarrow>
     0 \<le>s st_Status s \<and> st_Status s \<le>s 15
     \<and> (st_Speed s = 0 \<or> 50 \<le>s st_Speed s)
     \<and> (st_PHead s = 1 \<or> st_PHead s = 2)
     \<and> (st_NThreshold s = 0 \<or> (1 \<le>s st_NThreshold s \<and> st_NThreshold s \<le>s 256))
     \<and> \<not> f_lt F (f_const F 5) (st_Height s)
     \<and> \<not> f_lt F (st_Height s) (f_const F 0)"

definition componentConstraints :: "'f XComponent \<Rightarrow> bool" where
  "componentConstraints c \<longleftrightarrow>
     (c_PHead c = 1 \<or> c_PHead c = 2) \<and> (c_Speed c = 0 \<or> 50 \<le>s c_Speed c)"

definition panelArrayOK :: "'f PanelArrayRow list \<Rightarrow> bool" where
  "panelArrayOK panelArray \<longleftrightarrow>
     (case panelArray of [] \<Rightarrow> False | pa # _ \<Rightarrow> 1 \<le>s pa_NumX pa \<and> 1 \<le>s pa_NumY pa)"

text \<open>\<open>valid\<close> is false exactly when an error has been recorded.\<close>

definition consistent :: "DPVValidationResult \<Rightarrow> bool" where
  "consistent r \<longleftrightarrow> (Valid r \<longleftrightarrow> Errors r = [])"

section \<open>The header of a placement export in the words of the specification\<close>







section \<open>The round trip of the feeder backup in the words of the specification\<close>







section \<open>Properties of the import into the model\<close>

lemma collectVal_inv:
  "collectVal r (m0, u0) = (m1, u1) \<Longrightarrow> m0 [] = None \<Longrightarrow> [] \<notin> set u0
   \<Longrightarrow> m1 [] = None \<and> [] \<notin> set u1"
  by (auto simp: collectVal_def Let_def split: if_splits)

lemma collectVals_fold_inv:
  "fold collectVal rows (m0, u0) = (m1, u1) \<Longrightarrow> m0 [] = None \<Longrightarrow> [] \<notin> set u0
   \<Longrightarrow> m1 [] = None \<and> [] \<notin> set u1"
proof (induction rows arbitrary: m0 u0)
  case Nil
  then show ?case by simp
next
  case (Cons r rows)
  obtain m u where s: "collectVal r (m0, u0) = (m, u)" by (cases "collectVal r (m0, u0)")
  from collectVal_inv[OF s Cons.prems(2,3)] have i: "m [] = None" "[] \<notin> set u" by simp_all
  from Cons.prems(1) s have "fold collectVal rows (m, u) = (m1, u1)" by simp
  from Cons.IH[OF this i] show ?case .
qed

lemma collectVals_keys: "collectVals rows = (m, u) \<Longrightarrow> m [] = None \<and> [] \<notin> set u"
  unfolding collectVals_def by (rule collectVals_fold_inv) auto

lemma collectVals_all_empty_fold:
  "\<forall>r \<in> set rows. pr_Val r = [] \<Longrightarrow> fold collectVal rows s = s"
  by (induction rows) (auto simp: collectVal_def)

lemma collectVals_all_empty:
  "\<forall>r \<in> set rows. pr_Val r = [] \<Longrightarrow> collectVals rows = (Map.empty, [])"
  unfolding collectVals_def by (rule collectVals_all_empty_fold)

lemma Convert_Stations:
  "Stations (ConvertPOSToXFile F now pos fn) =
     map (\<lambda>(idx, val). newStation F idx val) (enumerate 0 (snd (collectVals (Rows pos))))"
  by (simp add: ConvertPOSToXFile_def NewXFile_def Let_def split: prod.split)

lemma Convert_Components:
  "Components (ConvertPOSToXFile F now pos fn) =
     map (\<lambda>(idx, row). newComponent F (fst (collectVals (Rows pos))) idx row) (enumerate 0 (Rows pos))"
  by (simp add: ConvertPOSToXFile_def NewXFile_def Let_def split: prod.split)

text \<open>
  C10. \<open>ConvertPOSToXFile\<close> makes no feeder for the empty value label (no feeder has
  an empty note), yet the placement made from a row with an empty value label has
  \<open>feederRef\<close> (\<open>STNo\<close>) 1. When every row has an empty value label, there is no feeder at
  all and every placement refers to feeder 1.
\<close>

theorem convert_empty_value_refers_to_feeder_1:
  "(\<forall>s \<in> set (Stations (ConvertPOSToXFile F now pos fn)). st_Note s \<noteq> []) \<and>
   length (Components (ConvertPOSToXFile F now pos fn)) = length (Rows pos) \<and>
   (\<forall>i < length (Rows pos). pr_Val (Rows pos ! i) = [] \<longrightarrow>
       c_STNo (Components (ConvertPOSToXFile F now pos fn) ! i) = 1) \<and>
   ((\<forall>r \<in> set (Rows pos). pr_Val r = []) \<longrightarrow>
       Stations (ConvertPOSToXFile F now pos fn) = [] \<and>
       (\<forall>c \<in> set (Components (ConvertPOSToXFile F now pos fn)). c_STNo c = 1))"
proof -
  obtain m u where mu: "collectVals (Rows pos) = (m, u)" by (cases "collectVals (Rows pos)")
  from collectVals_keys[OF mu] have k: "m [] = None" "[] \<notin> set u" by simp_all
  have 1: "\<forall>s \<in> set (Stations (ConvertPOSToXFile F now pos fn)). st_Note s \<noteq> []"
  proof
    fix s assume "s \<in> set (Stations (ConvertPOSToXFile F now pos fn))"
    then obtain i where "i < length u" "s = newStation F i (u ! i)"
      by (auto simp: Convert_Stations mu in_set_enumerate_eq)
    then have "u ! i \<in> set u" by simp
    with k(2) have "u ! i \<noteq> []" by metis
    with \<open>s = newStation F i (u ! i)\<close> show "st_Note s \<noteq> []"
      by (simp add: newStation_def)
  qed
  have 2: "length (Components (ConvertPOSToXFile F now pos fn)) = length (Rows pos)"
    by (simp add: Convert_Components)
  have 3: "\<forall>i < length (Rows pos). pr_Val (Rows pos ! i) = [] \<longrightarrow>
       c_STNo (Components (ConvertPOSToXFile F now pos fn) ! i) = 1"
    using k(1) by (simp add: Convert_Components mu newComponent_def nth_enumerate_eq)
  have 4: "(\<forall>r \<in> set (Rows pos). pr_Val r = []) \<longrightarrow>
       Stations (ConvertPOSToXFile F now pos fn) = [] \<and>
       (\<forall>c \<in> set (Components (ConvertPOSToXFile F now pos fn)). c_STNo c = 1)"
  proof
    assume a: "\<forall>r \<in> set (Rows pos). pr_Val r = []"
    from collectVals_all_empty[OF a] have e: "collectVals (Rows pos) = (Map.empty, [])" .
    show "Stations (ConvertPOSToXFile F now pos fn) = [] \<and>
       (\<forall>c \<in> set (Components (ConvertPOSToXFile F now pos fn)). c_STNo c = 1)"
      by (auto simp: Convert_Stations Convert_Components e newComponent_def)
  qed
  from 1 2 3 4 show ?thesis by blast
qed

text \<open>The theorem at an export of two rows without a value label.\<close>

theorem convert_empty_value_witness:
  "map pr_Val [\<lparr>pr_Ref = ''R1'', pr_Val = [], pr_Package = ''0603'', pr_PosX = 1, pr_PosY = 2,
                pr_Rot = 0, pr_Side = ''top''\<rparr>,
               \<lparr>pr_Ref = ''R2'', pr_Val = [], pr_Package = [], pr_PosX = 3, pr_PosY = 4,
                pr_Rot = 90, pr_Side = ''top''\<rparr> :: rat POSRow] = [[], []] \<and>
   Stations (ConvertPOSToXFile F_rat sampleTime
     \<lparr>Headers = [''Ref'', ''Val''],
      Rows = [\<lparr>pr_Ref = ''R1'', pr_Val = [], pr_Package = ''0603'', pr_PosX = 1, pr_PosY = 2,
                pr_Rot = 0, pr_Side = ''top''\<rparr>,
              \<lparr>pr_Ref = ''R2'', pr_Val = [], pr_Package = [], pr_PosX = 3, pr_PosY = 4,
                pr_Rot = 90, pr_Side = ''top''\<rparr>]\<rparr> ''board.pos'') = [] \<and>
   map c_STNo (Components (ConvertPOSToXFile F_rat sampleTime
     \<lparr>Headers = [''Ref'', ''Val''],
      Rows = [\<lparr>pr_Ref = ''R1'', pr_Val = [], pr_Package = ''0603'', pr_PosX = 1, pr_PosY = 2,
                pr_Rot = 0, pr_Side = ''top''\<rparr>,
              \<lparr>pr_Ref = ''R2'', pr_Val = [], pr_Package = [], pr_PosX = 3, pr_PosY = 4,
                pr_Rot = 90, pr_Side = ''top''\<rparr>]\<rparr> ''board.pos'')) = [1, 1]"
proof -
  define pos :: "rat POSData" where "pos = \<lparr>Headers = [''Ref'', ''Val''],
      Rows = [\<lparr>pr_Ref = ''R1'', pr_Val = [], pr_Package = ''0603'', pr_PosX = 1, pr_PosY = 2,
                pr_Rot = 0, pr_Side = ''top''\<rparr>,
              \<lparr>pr_Ref = ''R2'', pr_Val = [], pr_Package = [], pr_PosX = 3, pr_PosY = 4,
                pr_Rot = 90, pr_Side = ''top''\<rparr>]\<rparr>"
  define cs where "cs = Components (ConvertPOSToXFile F_rat sampleTime pos ''board.pos'')"
  have rows: "length (Rows pos) = 2" "pr_Val (Rows pos ! 0) = []" "pr_Val (Rows pos ! 1) = []"
    "\<forall>r \<in> set (Rows pos). pr_Val r = []"
    by (simp_all add: pos_def)
  note inst = convert_empty_value_refers_to_feeder_1 [of F_rat sampleTime pos "''board.pos''"]
  from inst rows(4) have st: "Stations (ConvertPOSToXFile F_rat sampleTime pos ''board.pos'') = []"
    by blast
  from inst rows(1) have len: "length cs = 2" unfolding cs_def by metis
  from inst rows(1,2) have c0: "c_STNo (cs ! 0) = 1" unfolding cs_def
    by (metis zero_less_numeral)
  from inst rows(1,3) have c1: "c_STNo (cs ! 1) = 1" unfolding cs_def
    by (metis one_less_numeral_iff semiring_norm(76))
  have "map c_STNo cs = [1, 1]"
    using len c0 c1 by (auto simp: list_eq_iff_nth_eq less_Suc_eq numeral_2_eq_2)
  with st show ?thesis unfolding cs_def pos_def by simp
qed

section \<open>Properties of the reconciliation engine\<close>

subsection \<open>The maps of the code and the matching of the specification\<close>

lemma noteToIdx_snoc:
  "noteToIdx (sts @ [s]) = (if st_Note s \<noteq> [] then (noteToIdx sts)(st_Note s \<mapsto> length sts) else noteToIdx sts)"
  by (simp add: noteToIdx_def enumerate_append_eq)

lemma matchingFeeder_snoc:
  "matchingFeeder (sts @ [s]) n =
     (if n \<noteq> [] \<and> st_Note s = n then Some (length sts) else matchingFeeder sts n)"
proof -
  have "filter (\<lambda>i. st_Note ((sts @ [s]) ! i) = n) [0..<length sts]
        = filter (\<lambda>i. st_Note (sts ! i) = n) [0..<length sts]"
    by (rule filter_cong) (auto simp: nth_append)
  then show ?thesis
    by (simp add: matchingFeeder_def Let_def)
qed

lemma noteToIdx_matchingFeeder: "noteToIdx sts n = matchingFeeder sts n"
proof (induction sts rule: rev_induct)
  case Nil
  show ?case by (simp add: noteToIdx_def matchingFeeder_def)
next
  case (snoc s sts)
  then show ?case by (auto simp: noteToIdx_snoc matchingFeeder_snoc)
qed

lemma matchingFeeder_SomeD:
  "matchingFeeder sts n = Some i \<Longrightarrow> n \<noteq> [] \<and> i < length sts \<and> st_Note (sts ! i) = n
     \<and> (\<forall>j < length sts. i < j \<longrightarrow> st_Note (sts ! j) \<noteq> n)"
proof (induction sts arbitrary: i rule: rev_induct)
  case Nil
  then show ?case by (simp add: matchingFeeder_def split: if_splits)
next
  case (snoc s sts)
  show ?case
  proof (cases "n \<noteq> [] \<and> st_Note s = n")
    case True
    with snoc.prems have "i = length sts" by (simp add: matchingFeeder_snoc)
    with True show ?thesis by (auto simp: nth_append)
  next
    case False
    with snoc.prems have "matchingFeeder sts n = Some i" by (simp add: matchingFeeder_snoc)
    from snoc.IH[OF this] False show ?thesis by (auto simp: nth_append less_Suc_eq)
  qed
qed

lemma matchingFeeder_None_iff:
  "matchingFeeder sts n = None \<longleftrightarrow> n = [] \<or> (\<forall>s \<in> set sts. st_Note s \<noteq> n)"
proof (induction sts rule: rev_induct)
  case Nil
  show ?case by (simp add: matchingFeeder_def)
next
  case (snoc s sts)
  then show ?case by (auto simp: matchingFeeder_snoc)
qed

lemma maxID_fold:
  "sint (fold (\<lambda>s m. if m <s st_ID s then st_ID s else m) sts m0)
     = Max (insert (sint m0) (sint ` st_ID ` set sts))"
proof (induction sts arbitrary: m0)
  case Nil
  show ?case by simp
next
  case (Cons s sts)
  have fin: "finite (sint ` st_ID ` set sts)" by simp
  show ?case
  proof (cases "m0 <s st_ID s")
    case True
    then have lt: "sint m0 < sint (st_ID s)" by (simp add: word_sless_alt)
    with Cons.IH[of "st_ID s"] True show ?thesis
      using fin by (cases "set sts = {}") (auto simp: max_def)
  next
    case False
    then have ge: "sint (st_ID s) \<le> sint m0" by (simp add: word_sless_alt)
    with Cons.IH[of m0] False show ?thesis
      using fin by (cases "set sts = {}") (auto simp: max_def)
  qed
qed

lemma maxID_freshID: "maxID sts + 1 = freshID sts"
proof -
  have "sint (maxID sts) = Max (insert 0 (sint ` st_ID ` set sts))"
    unfolding maxID_def using maxID_fold[of sts 0] by simp
  then have "maxID sts = word_of_int (Max (insert 0 (sint ` st_ID ` set sts)))"
    by (metis scast_eq scast_id)
  then show ?thesis by (simp add: freshID_def)
qed

lemma mergeStation_mergeFeeder:
  "mergeStation (noteToIdx sts0) inc (sts, k) =
     (mergeFeeder False sts0 sts inc, if matchingFeeder sts0 (st_Note inc) = None then k else k + 1)"
  by (simp add: mergeStation_def mergeFeeder_def noteToIdx_matchingFeeder maxID_freshID Let_def
      split: option.split)

lemma fold_mergeStation:
  "fold (mergeStation (noteToIdx sts0)) incs (sts, k) =
     (fold (\<lambda>inc sts. mergeFeeder False sts0 sts inc) incs sts,
      k + of_nat (length (filter (\<lambda>inc. matchingFeeder sts0 (st_Note inc) \<noteq> None) incs)))"
  by (induction incs arbitrary: sts k) (simp_all add: mergeStation_mergeFeeder)

lemma mergeStackStation_mergeFeeder:
  "mergeStackStation (noteToIdx sts0) inc (sts, k, a) =
     (mergeFeeder True sts0 sts inc,
      if matchingFeeder sts0 (st_Note inc) = None then k else k + 1,
      if matchingFeeder sts0 (st_Note inc) = None then a + 1 else a)"
  by (simp add: mergeStackStation_def mergeFeeder_def noteToIdx_matchingFeeder maxID_freshID Let_def
      split: option.split)

lemma fold_mergeStackStation:
  "fold (mergeStackStation (noteToIdx sts0)) incs (sts, k, a) =
     (fold (\<lambda>inc sts. mergeFeeder True sts0 sts inc) incs sts,
      k + of_nat (length (filter (\<lambda>inc. matchingFeeder sts0 (st_Note inc) \<noteq> None) incs)),
      a + of_nat (length (filter (\<lambda>inc. matchingFeeder sts0 (st_Note inc) = None) incs)))"
  by (induction incs arbitrary: sts k a) (simp_all add: mergeStackStation_mergeFeeder)

lemma noteToID_snoc:
  "noteToID (sts @ [s]) = (if st_Note s \<noteq> [] then (noteToID sts)(st_Note s \<mapsto> st_ID s) else noteToID sts)"
  by (simp add: noteToID_def)

lemma noteToID_matchingFeeder:
  "noteToID sts n = map_option (\<lambda>i. st_ID (sts ! i)) (matchingFeeder sts n)"
proof (induction sts rule: rev_induct)
  case Nil
  show ?case by (simp add: noteToID_def matchingFeeder_def)
next
  case (snoc s sts)
  show ?case
  proof (cases "n \<noteq> [] \<and> st_Note s = n")
    case True
    then show ?thesis by (simp add: noteToID_snoc matchingFeeder_snoc)
  next
    case False
    have "map_option (\<lambda>i. st_ID ((sts @ [s]) ! i)) (matchingFeeder sts n)
          = map_option (\<lambda>i. st_ID (sts ! i)) (matchingFeeder sts n)"
    proof (cases "matchingFeeder sts n")
      case None
      then show ?thesis by simp
    next
      case (Some i)
      from matchingFeeder_SomeD[OF Some] have "i < length sts" by simp
      with Some show ?thesis by (simp add: nth_append)
    qed
    with False snoc.IH show ?thesis by (auto simp: noteToID_snoc matchingFeeder_snoc)
  qed
qed

lemma rederiveComponentSTNo_eq:
  "rederiveComponentSTNo xf = xf\<lparr>Components := map (rederiveFeederRef (Stations xf)) (Components xf)\<rparr>"
proof -
  have "(\<lambda>c. case noteToID (Stations xf) (c_Explain c) of Some i \<Rightarrow> c\<lparr>c_STNo := i\<rparr> | None \<Rightarrow> c)
        = rederiveFeederRef (Stations xf)"
    by (rule ext) (simp add: rederiveFeederRef_def noteToID_matchingFeeder split: option.split)
  then show ?thesis by (simp add: rederiveComponentSTNo_def Let_def)
qed

lemma MergeStationsIntoXFile_eq:
  "MergeStationsIntoXFile xf incs fn =
     (let sts = mergeFeeders False (Stations xf) incs
      in (xf\<lparr>Stations := sts,
             StackFiles := (if fn \<noteq> [] \<and> fn \<notin> set (StackFiles xf)
                            then StackFiles xf @ [fn] else StackFiles xf),
             Components := map (rederiveFeederRef sts) (Components xf)\<rparr>,
          of_nat (matchedCount (Stations xf) incs)))"
  by (simp add: MergeStationsIntoXFile_def fold_mergeStation rederiveComponentSTNo_eq Let_def
      mergeFeeders_def matchedCount_def)

lemma MergeStacksFile_eq:
  "ParseStack F content = Inr incs \<Longrightarrow>
   MergeStacksFile F xf content =
     (let sts = mergeFeeders True (Stations xf) incs
      in (xf\<lparr>Stations := sts, Components := map (rederiveFeederRef sts) (Components xf)\<rparr>,
          of_nat (matchedCount (Stations xf) incs), of_nat (addedCount (Stations xf) incs), None))"
  by (simp add: MergeStacksFile_def fold_mergeStackStation rederiveComponentSTNo_eq Let_def
      mergeFeeders_def matchedCount_def addedCount_def)

subsection \<open>C1: what a merge does\<close>

text \<open>
  C1, as the code has it. \<open>MergeStationsIntoXFile\<close> and \<open>MergeStacksFile\<close> treat every
  incoming feeder in turn (\<open>mergeFeeders\<close>): a feeder whose note is not empty and is
  the note of a feeder that the model held before the merge replaces the last such
  feeder, which keeps its \<open>id\<close> (and its \<open>No\<close> in \<open>MergeStacksFile\<close>); any other feeder is
  appended with the \<open>id\<close> one above the greatest of 0 and the ids present, and with the
  number of feeders as \<open>No\<close>. Then every placement whose value label is the non-empty
  note of a resulting feeder gets the \<open>id\<close> of the last such feeder as its \<open>STNo\<close>. The
  counts returned are those of the replaced and of the appended feeders.
\<close>

theorem merge_replaces_by_note_or_appends:
  "MergeStationsIntoXFile xf incs fn =
     (let sts = mergeFeeders False (Stations xf) incs
      in (xf\<lparr>Stations := sts,
             StackFiles := (if fn \<noteq> [] \<and> fn \<notin> set (StackFiles xf)
                            then StackFiles xf @ [fn] else StackFiles xf),
             Components := map (rederiveFeederRef sts) (Components xf)\<rparr>,
          of_nat (matchedCount (Stations xf) incs)))
   \<and> (ParseStack F content = Inr parsed \<longrightarrow>
        MergeStacksFile F xf content =
          (let sts = mergeFeeders True (Stations xf) parsed
           in (xf\<lparr>Stations := sts, Components := map (rederiveFeederRef sts) (Components xf)\<rparr>,
               of_nat (matchedCount (Stations xf) parsed),
               of_nat (addedCount (Stations xf) parsed), None)))"
  using MergeStationsIntoXFile_eq [of xf incs fn] MergeStacksFile_eq [of F content parsed xf]
  by blast

text \<open>
  The claim as stated fails where the notes are empty: the model holds one feeder
  with an empty note and \<open>id\<close> 5, the incoming feeder has the same (empty) note, and it
  is appended with \<open>id\<close> 6 instead of replacing the feeder.
\<close>

theorem merge_empty_note_counterexample:
  "st_Note (sampleStation\<lparr>st_Note := [], st_FeedRates := 8\<rparr>)
     = st_Note (sampleStation\<lparr>st_Note := [], st_ID := 5\<rparr>)
   \<and> Stations (fst (MergeStationsIntoXFile
        (sampleFile\<lparr>Stations := [sampleStation\<lparr>st_Note := [], st_ID := 5\<rparr>]\<rparr>)
        [sampleStation\<lparr>st_Note := [], st_FeedRates := 8\<rparr>] ''feeders.stack''))
     = [sampleStation\<lparr>st_Note := [], st_ID := 5\<rparr>,
        sampleStation\<lparr>st_Note := [], st_FeedRates := 8, st_ID := 6, st_No := 1\<rparr>]
   \<and> Stations (fst (MergeStationsIntoXFile
        (sampleFile\<lparr>Stations := [sampleStation\<lparr>st_Note := [], st_ID := 5\<rparr>]\<rparr>)
        [sampleStation\<lparr>st_Note := [], st_FeedRates := 8\<rparr>] ''feeders.stack''))
     \<noteq> [sampleStation\<lparr>st_Note := [], st_FeedRates := 8, st_ID := 5\<rparr>]"
  by (simp add: MergeStationsIntoXFile_def noteToIdx_def mergeStation_def maxID_def word_sless_alt
      rederiveComponentSTNo_def noteToID_def sampleFile_def NewXFile_def sampleStation_def
      newStation_def F_rat_def Let_def)

text \<open>The theorem at work: the stack file with the one row \<open>Station,0,7,,,,10k\<close> is merged
  into the model that holds the feeder \<open>10k\<close> with \<open>id\<close> 1, and replaces it.\<close>

lemma defaultStackHeader_colMap:
  "stationColMap defaultStackHeader =
     [''table'' \<mapsto> 0, ''no.'' \<mapsto> 1, ''id'' \<mapsto> 2, ''deltx'' \<mapsto> 3,
      ''delty'' \<mapsto> 4, ''feedrates'' \<mapsto> 5, ''note'' \<mapsto> 6, ''height'' \<mapsto> 7,
      ''speed'' \<mapsto> 8, ''status'' \<mapsto> 9, ''npixsizex'' \<mapsto> 10, ''npixsizey'' \<mapsto> 11,
      ''heighttake'' \<mapsto> 12, ''delaytake'' \<mapsto> 13, ''npullstripspeed'' \<mapsto> 14,
      ''nthreshold'' \<mapsto> 15, ''nvisualradio'' \<mapsto> 16]"
  by (simp add: stationColMap_def defaultStackHeader_def ToLower_def toLowerChar_def TrimSpace_def
      isSpace_def eval_nat_numeral)

lemma sample_row_csv: "csvRecord ''Station,3,7,,,,10k'' = Some [''Station'', ''3'', ''7'', [], [], [], ''10k'']"
  by (simp add: DQ_def)

lemma sample_row_station: "parseStationRow F_rat defaultStackHeader [''Station'', ''3'', ''7'', [], [], [], ''10k'']
   = sampleStation\<lparr>st_No := 3, st_ID := 7\<rparr>"
  unfolding parseStationRow_def defaultStackHeader_colMap
  by (simp add: getInt_def getValue_def getFloat_def
      Atoi_def isDigit_def natOfDigits_def digitVal_def TrimSpace_def isSpace_def
      sampleStation_def newStation_def F_rat_def)

lemma sample_row_line: "parseStackLine F_rat ''Station,3,7,,,,10k'' ([], []) =
   (defaultStackHeader, [sampleStation\<lparr>st_No := 3, st_ID := 7\<rparr>])"
proof -
  have t: "TrimSpace ''Station,3,7,,,,10k'' = ''Station,3,7,,,,10k''"
    by (simp add: TrimSpace_def isSpace_def)
  have l: "ToLower ''Station,3,7,,,,10k'' = ''station,3,7,,,,10k''"
    by (simp add: ToLower_def toLowerChar_def)
  have t2: "TrimSpace ''Station'' = ''Station''"
    by (simp add: TrimSpace_def isSpace_def)
  show ?thesis
    unfolding parseStackLine_def
    by (simp add: Let_def t l sample_row_csv t2 sample_row_station HasPrefix_def del: csvRecord.simps)
qed

lemma parse_sample_row:
  "ParseStack F_rat ''Station,3,7,,,,10k'' =
     Inr [sampleStation\<lparr>st_No := 3, st_ID := 7\<rparr>]"
proof -
  have s: "Split_LF (removeCR ''Station,3,7,,,,10k'') = [''Station,3,7,,,,10k'']"
    by (simp add: Split_LF_def removeCR_def CR_def LF_def)
  have l: "ToLower ''Station,3,7,,,,10k'' = ''station,3,7,,,,10k''"
    by (simp add: ToLower_def toLowerChar_def)
  have c: "Contains ''station,3,7,,,,10k'' ''station''"
    by (simp add: HasPrefix_def)
  show ?thesis
    unfolding ParseStack_def by (simp add: Let_def s l c sample_row_line del: Contains.simps)
qed

theorem merge_replaces_by_note_witness:
  "ParseStack F_rat ''Station,3,7,,,,10k'' = Inr [sampleStation\<lparr>st_No := 3, st_ID := 7\<rparr>]
   \<and> MergeStacksFile F_rat (sampleFile\<lparr>Stations := [sampleStation]\<rparr>) ''Station,3,7,,,,10k''
       = (sampleFile\<lparr>Stations := [sampleStation]\<rparr>, 1, 0, None)
   \<and> MergeStationsIntoXFile (sampleFile\<lparr>Stations := [sampleStation]\<rparr>)
         [sampleStation\<lparr>st_No := 3, st_ID := 7\<rparr>] []
       = (sampleFile\<lparr>Stations := [sampleStation\<lparr>st_No := 3\<rparr>]\<rparr>, 1)"
  using merge_replaces_by_note_or_appends [of "sampleFile\<lparr>Stations := [sampleStation]\<rparr>"
      "[sampleStation\<lparr>st_No := 3, st_ID := 7\<rparr>]" "[]" F_rat "''Station,3,7,,,,10k''"
      "[sampleStation\<lparr>st_No := 3, st_ID := 7\<rparr>]"]
    parse_sample_row
  by (simp add: mergeFeeders_def mergeFeeder_def matchingFeeder_def matchedCount_def
      addedCount_def sampleFile_def NewXFile_def sampleStation_def newStation_def F_rat_def Let_def)

subsection \<open>C5: merging the same list a second time\<close>

lemma mergeFeeder_notes:
  assumes "map st_Note sts = map st_Note sts0 @ ys"
  shows "map st_Note (mergeFeeder k sts0 sts inc) =
           map st_Note sts @ (if matchingFeeder sts0 (st_Note inc) = None then [st_Note inc] else [])"
proof (cases "matchingFeeder sts0 (st_Note inc)")
  case None
  then show ?thesis by (simp add: mergeFeeder_def)
next
  case (Some i)
  from matchingFeeder_SomeD[OF Some] have i: "i < length sts0" "st_Note (sts0 ! i) = st_Note inc"
    by simp_all
  have "map st_Note sts ! i = st_Note inc"
    using assms i by (simp add: nth_append)
  then have "(map st_Note sts)[i := st_Note inc] = map st_Note sts"
    by (metis list_update_id)
  with Some show ?thesis by (simp add: mergeFeeder_def map_update)
qed

lemma mergeFeeder_ids:
  assumes "matchingFeeder sts0 (st_Note inc) = Some i"
  shows "map st_ID (mergeFeeder k sts0 sts inc) = map st_ID sts"
proof (cases "i < length sts")
  case True
  then have "(map st_ID sts)[i := st_ID (sts ! i)] = map st_ID sts"
    by (metis list_update_id nth_map)
  with assms show ?thesis by (simp add: mergeFeeder_def map_update)
next
  case False
  then have "length sts \<le> i" by simp
  then have "\<And>x. sts[i := x] = sts" by (rule list_update_beyond)
  with assms show ?thesis by (simp add: mergeFeeder_def)
qed

lemma fold_mergeFeeder_notes:
  "map st_Note sts = map st_Note sts0 @ ys \<Longrightarrow>
   map st_Note (fold (\<lambda>inc sts. mergeFeeder k sts0 sts inc) incs sts) =
     map st_Note sts @ map st_Note (filter (\<lambda>inc. matchingFeeder sts0 (st_Note inc) = None) incs)"
proof (induction incs arbitrary: sts ys)
  case Nil
  show ?case by simp
next
  case (Cons inc incs)
  from mergeFeeder_notes[OF Cons.prems, of k inc]
  have step: "map st_Note (mergeFeeder k sts0 sts inc) =
           map st_Note sts @ (if matchingFeeder sts0 (st_Note inc) = None then [st_Note inc] else [])" .
  with Cons.prems have "map st_Note (mergeFeeder k sts0 sts inc) = map st_Note sts0 @
      (ys @ (if matchingFeeder sts0 (st_Note inc) = None then [st_Note inc] else []))"
    by simp
  from Cons.IH[OF this] step show ?case by simp
qed

lemma fold_mergeFeeder_all_matched:
  "\<forall>inc \<in> set incs. matchingFeeder sts0 (st_Note inc) \<noteq> None \<Longrightarrow>
   map st_Note sts = map st_Note sts0 @ ys \<Longrightarrow>
   map st_Note (fold (\<lambda>inc sts. mergeFeeder k sts0 sts inc) incs sts) = map st_Note sts \<and>
   map st_ID (fold (\<lambda>inc sts. mergeFeeder k sts0 sts inc) incs sts) = map st_ID sts"
proof (induction incs arbitrary: sts)
  case Nil
  show ?case by simp
next
  case (Cons inc incs)
  from Cons.prems(1) obtain i where i: "matchingFeeder sts0 (st_Note inc) = Some i" by auto
  from mergeFeeder_notes[OF Cons.prems(2), of k inc] i
  have n: "map st_Note (mergeFeeder k sts0 sts inc) = map st_Note sts" by simp
  from mergeFeeder_ids[OF i] have d: "map st_ID (mergeFeeder k sts0 sts inc) = map st_ID sts" .
  from n Cons.prems(2) have "map st_Note (mergeFeeder k sts0 sts inc) = map st_Note sts0 @ ys" by simp
  from Cons.IH[OF _ this] Cons.prems(1) n d show ?case by simp
qed

lemma merged_notes_present:
  assumes "inc \<in> set incs" and "st_Note inc \<noteq> []"
  shows "matchingFeeder (mergeFeeders k sts0 incs) (st_Note inc) \<noteq> None"
proof -
  let ?S = "mergeFeeders k sts0 incs"
  have nts: "map st_Note ?S = map st_Note sts0
       @ map st_Note (filter (\<lambda>inc. matchingFeeder sts0 (st_Note inc) = None) incs)"
    using fold_mergeFeeder_notes[of sts0 sts0 "[]" k incs] by (simp add: mergeFeeders_def)
  have "st_Note inc \<in> set (map st_Note ?S)"
  proof (cases "matchingFeeder sts0 (st_Note inc)")
    case None
    with assms(1) show ?thesis unfolding nts by auto
  next
    case (Some i)
    from matchingFeeder_SomeD[OF Some] have "i < length sts0" "st_Note (sts0 ! i) = st_Note inc"
      by simp_all
    then have "st_Note inc \<in> set (map st_Note sts0)" by (metis nth_mem length_map nth_map)
    then show ?thesis unfolding nts by simp
  qed
  with assms(2) show ?thesis by (auto simp: matchingFeeder_None_iff)
qed

text \<open>
  C5, as the code has it. When no incoming feeder has an empty note, merging the list a
  second time adds no feeder: the feeders are as many as after the first merge, with
  the same notes and the same ids in the same order, and every incoming feeder is
  counted as merged. (What the second merge may change are the other fields of the
  feeders it replaces in place, their \<open>No\<close> among them.)
\<close>

theorem merge_twice_adds_nothing:
  assumes "\<forall>incoming \<in> set incs. st_Note incoming \<noteq> []"
  shows "length (Stations (fst (MergeStationsIntoXFile (fst (MergeStationsIntoXFile xf incs fn)) incs fn')))
           = length (Stations (fst (MergeStationsIntoXFile xf incs fn))) \<and>
         map st_Note (Stations (fst (MergeStationsIntoXFile (fst (MergeStationsIntoXFile xf incs fn)) incs fn')))
           = map st_Note (Stations (fst (MergeStationsIntoXFile xf incs fn))) \<and>
         map st_ID (Stations (fst (MergeStationsIntoXFile (fst (MergeStationsIntoXFile xf incs fn)) incs fn')))
           = map st_ID (Stations (fst (MergeStationsIntoXFile xf incs fn))) \<and>
         snd (MergeStationsIntoXFile (fst (MergeStationsIntoXFile xf incs fn)) incs fn') = of_nat (length incs)"
proof -
  define S1 where "S1 = mergeFeeders False (Stations xf) incs"
  define S2 where "S2 = mergeFeeders False S1 incs"
  have s1: "Stations (fst (MergeStationsIntoXFile xf incs fn)) = S1"
    by (simp add: MergeStationsIntoXFile_eq Let_def S1_def)
  have s2: "Stations (fst (MergeStationsIntoXFile (fst (MergeStationsIntoXFile xf incs fn)) incs fn')) = S2"
    using s1 by (simp add: MergeStationsIntoXFile_eq [of "fst (MergeStationsIntoXFile xf incs fn)"] Let_def S2_def)
  have all: "\<forall>inc \<in> set incs. matchingFeeder S1 (st_Note inc) \<noteq> None"
    using assms merged_notes_present[of _ incs False "Stations xf"] unfolding S1_def by blast
  from fold_mergeFeeder_all_matched[OF all, of S1 "[]" False]
  have eq: "map st_Note S2 = map st_Note S1" "map st_ID S2 = map st_ID S1"
    unfolding S2_def mergeFeeders_def by simp_all
  from eq(1) have len: "length S2 = length S1" by (metis length_map)
  have "filter (\<lambda>inc. matchingFeeder S1 (st_Note inc) \<noteq> None) incs = incs"
    using all by simp
  then have cnt: "snd (MergeStationsIntoXFile (fst (MergeStationsIntoXFile xf incs fn)) incs fn') = of_nat (length incs)"
    using s1 by (simp add: MergeStationsIntoXFile_eq [of "fst (MergeStationsIntoXFile xf incs fn)"] Let_def matchedCount_def)
  from s1 s2 eq len cnt show ?thesis by simp
qed

text \<open>The claim as stated fails for a feeder with an empty note: merged into the empty
  model once it gives one feeder, merged twice it gives two.\<close>

theorem merge_twice_counterexample:
  "length (Stations (fst (MergeStationsIntoXFile sampleFile
      [sampleStation\<lparr>st_Note := []\<rparr>] ''feeders.stack''))) = 1
   \<and> length (Stations (fst (MergeStationsIntoXFile
      (fst (MergeStationsIntoXFile sampleFile [sampleStation\<lparr>st_Note := []\<rparr>] ''feeders.stack''))
      [sampleStation\<lparr>st_Note := []\<rparr>] ''feeders.stack''))) = 2"
  by (simp add: MergeStationsIntoXFile_def noteToIdx_def mergeStation_def maxID_def word_sless_alt
      rederiveComponentSTNo_def noteToID_def sampleFile_def NewXFile_def sampleStation_def
      newStation_def F_rat_def Let_def)

text \<open>The theorem at the feeder \<open>10k\<close> and the empty model.\<close>

theorem merge_twice_witness:
  "st_Note sampleStation \<noteq> []
   \<and> map st_Note (Stations (fst (MergeStationsIntoXFile
        (fst (MergeStationsIntoXFile sampleFile [sampleStation] ''feeders.stack''))
        [sampleStation] ''feeders.stack'')))
     = map st_Note (Stations (fst (MergeStationsIntoXFile sampleFile [sampleStation] ''feeders.stack'')))
   \<and> snd (MergeStationsIntoXFile
        (fst (MergeStationsIntoXFile sampleFile [sampleStation] ''feeders.stack''))
        [sampleStation] ''feeders.stack'') = 1"
proof -
  have n: "st_Note sampleStation \<noteq> []"
    by (simp add: sampleStation_def newStation_def)
  then have h: "\<forall>incoming \<in> set [sampleStation]. st_Note incoming \<noteq> []"
    by simp
  from merge_twice_adds_nothing [OF h, of sampleFile "''feeders.stack''" "''feeders.stack''"] n
  show ?thesis by simp
qed

section \<open>Properties of the feeder-backup export\<close>

subsection \<open>Formatting the sample values\<close>

lemma fmt2_rat_0: "fmt2_rat 0 = ''0.00''"
  by (simp add: fmt2_rat_def fmt02d_def showNat.simps)

lemma fmt2_rat_half: "fmt2_rat (1/2) = ''0.50''"
  by (simp add: fmt2_rat_def fmt02d_def showNat.simps)

lemma fmtInt_small:
  "fmtInt 0 = ''0''" "fmtInt 1 = ''1''" "fmtInt 2 = ''2''" "fmtInt 4 = ''4''" "fmtInt 10 = ''10''"
  "fmtInt 85 = ''85''" "fmtInt 110 = ''110''" "fmtInt 200 = ''200''"
  by (simp_all add: fmtInt_def showNat.simps)

lemma fmtIdx_small: "fmtIdx 0 = ''0''" "fmtIdx 1 = ''1''" "fmtIdx (Suc 0) = ''1''"
  by (simp_all add: fmtIdx_def fmtInt_def showNat.simps)

lemma stackCsvEscape_plain: "stackCsvEscape ''22k'' = ''22k''" "stackCsvEscape ''10k'' = ''10k''"
  by (simp_all add: stackCsvEscape_def ContainsAny_def DQ_def CR_def LF_def)

subsection \<open>C7: the row numbers of \<open>GenerateStack\<close>\<close>

text \<open>
  C7 fails on the code. The model holds the feeder \<open>10k\<close> marked \<open>DNP\<close> and then the
  feeder \<open>22k\<close>. \<open>GenerateStack\<close> writes one row, for \<open>22k\<close>, and numbers it 1: the
  index of the feeder among all the feeders of the model. \<open>GenerateStacksFile\<close>, the
  same export under another file name, numbers the row 0.
\<close>

theorem generate_stack_numbers_by_position:
  "GenerateStack F_rat
     (sampleFile\<lparr>Stations := [sampleStation\<lparr>st_DNP := True\<rparr>,
                               sampleStation\<lparr>st_Note := ''22k'', st_ID := 2, st_No := 1\<rparr>]\<rparr>)
   = ''separated'' @ CRLF @ ''FILE,MaterialStack.stack'' @ CRLF @ ''PANELYPE,1'' @ CRLF @ CRLF
     @ stackTableHeader
     @ ''Station,1,2,1,0.00,0.00,4,22k,0.50,0,4,0,0,0.00,10,85,110,200'' @ CRLF
   \<and> GenerateStacksFile F_rat
     (sampleFile\<lparr>Stations := [sampleStation\<lparr>st_DNP := True\<rparr>,
                               sampleStation\<lparr>st_Note := ''22k'', st_ID := 2, st_No := 1\<rparr>]\<rparr>)
   = ''separated'' @ CRLF @ ''FILE,material.stacks'' @ CRLF @ ''PANELYPE,1'' @ CRLF @ CRLF
     @ stackTableHeader
     @ ''Station,0,2,1,0.00,0.00,4,22k,0.50,0,4,0,0,0.00,10,85,110,200'' @ CRLF"
  by (simp add: GenerateStack_def GenerateStacksFile_def stackRow_def stackRowFields_def
      sampleFile_def NewXFile_def sampleStation_def newStation_def F_rat_def
      fmt2_rat_0 fmt2_rat_half fmtInt_small fmtIdx_small stackCsvEscape_plain)

section \<open>Properties of the validation engine\<close>

subsection \<open>When a check leaves the result valid\<close>

lemma Valid_addError [simp]: "Valid (addError r e) = False"
  by (simp add: addError_def)

lemma Valid_addWarning [simp]: "Valid (addWarning r w) = Valid r"
  by (simp add: addWarning_def)

lemma Errors_addError [simp]: "Errors (addError r e) = Errors r @ [e]"
  by (simp add: addError_def)

lemma Errors_addWarning [simp]: "Errors (addWarning r w) = Errors r"
  by (simp add: addWarning_def)

lemma not_sless_iff: "(\<not> a <s b) = (b \<le>s (a::goint))"
  by (auto simp: word_sless_alt word_sle_eq)

lemma fold_enumerate_Valid:
  assumes "\<And>i x r. Valid (body i x r) = (Valid r \<and> ok x)"
  shows "Valid (fold (\<lambda>(i, x). body i x) (enumerate n xs) r) = (Valid r \<and> (\<forall>x \<in> set xs. ok x))"
proof (induction xs arbitrary: n r)
  case Nil
  show ?case by simp
next
  case (Cons x xs)
  show ?case by (auto simp: Cons.IH assms)
qed

lemma forRange_Valid:
  assumes "\<And>i x r. Valid (body i x r) = (Valid r \<and> ok x)"
  shows "Valid (forRange body xs r) = (Valid r \<and> (\<forall>x \<in> set xs. ok x))"
  unfolding forRange_def by (rule fold_enumerate_Valid) (rule assms)

lemma forRange_Valid_warn:
  assumes "\<And>i x r. Valid (body i x r) = Valid r"
  shows "Valid (forRange body xs r) = Valid r"
  using forRange_Valid [of body "\<lambda>_. True" xs r] assms by simp

lemma fst_checkStationID: "fst (checkStationID i s (ids, r)) = ids(st_ID s := True)"
  by (simp add: checkStationID_def Let_def)

lemma Valid_snd_checkStationID:
  "Valid (snd (checkStationID i s (ids, r))) = (Valid r \<and> \<not> ids (st_ID s) \<and> \<not> 100 \<le>s st_ID s)"
  by (simp add: checkStationID_def Let_def)

lemma checkStationID_fold:
  "fold (\<lambda>(i, s). checkStationID i s) (enumerate n sts) (ids, r) = (ids', r') \<Longrightarrow>
   ids' = (\<lambda>x. ids x \<or> x \<in> st_ID ` set sts) \<and>
   Valid r' = (Valid r \<and> distinct (map st_ID sts)
               \<and> (\<forall>s \<in> set sts. \<not> ids (st_ID s) \<and> \<not> 100 \<le>s st_ID s))"
proof (induction sts arbitrary: n ids r)
  case Nil
  then show ?case by auto
next
  case (Cons s sts)
  obtain ids1 r1 where step: "checkStationID n s (ids, r) = (ids1, r1)"
    by (cases "checkStationID n s (ids, r)")
  with fst_checkStationID [of n s ids r] Valid_snd_checkStationID [of n s ids r]
  have ids1: "ids1 = ids(st_ID s := True)"
    and v1: "Valid r1 = (Valid r \<and> \<not> ids (st_ID s) \<and> \<not> 100 \<le>s st_ID s)"
    by simp_all
  from Cons.prems step
  have "fold (\<lambda>(i, s). checkStationID i s) (enumerate (Suc n) sts) (ids1, r1) = (ids', r')"
    by simp
  from Cons.IH[OF this]
  have a: "ids' = (\<lambda>x. ids1 x \<or> x \<in> st_ID ` set sts)"
    and b: "Valid r' = (Valid r1 \<and> distinct (map st_ID sts)
               \<and> (\<forall>s \<in> set sts. \<not> ids1 (st_ID s) \<and> \<not> 100 \<le>s st_ID s))"
    by simp_all
  from a ids1 have "ids' = (\<lambda>x. ids x \<or> x \<in> st_ID ` set (s # sts))" by auto
  moreover have c: "(\<forall>t \<in> set sts. \<not> ids1 (st_ID t) \<and> \<not> 100 \<le>s st_ID t)
      = (st_ID s \<notin> st_ID ` set sts \<and> (\<forall>t \<in> set sts. \<not> ids (st_ID t) \<and> \<not> 100 \<le>s st_ID t))"
    unfolding ids1 by (auto simp: image_iff)
  have "Valid r' = (Valid r \<and> distinct (map st_ID (s # sts))
               \<and> (\<forall>t \<in> set (s # sts). \<not> ids (st_ID t) \<and> \<not> 100 \<le>s st_ID t))"
    unfolding b c v1 by auto
  ultimately show ?case by simp
qed

lemma forRange_checkStationID:
  "forRange checkStationID sts (\<lambda>_. False, r) = (ids', r') \<Longrightarrow>
   ids' = (\<lambda>x. x \<in> st_ID ` set sts) \<and>
   Valid r' = (Valid r \<and> distinct (map st_ID sts) \<and> (\<forall>s \<in> set sts. \<not> 100 \<le>s st_ID s))"
  unfolding forRange_def using checkStationID_fold [of 0 sts "\<lambda>_. False" r ids' r'] by simp

lemma checkStationNo_Valid: "Valid (checkStationNo i s r) = Valid r"
  by (simp add: checkStationNo_def)

lemma checkStationStatus_Valid:
  "Valid (checkStationStatus i s r) = (Valid r \<and> 0 \<le>s st_Status s \<and> st_Status s \<le>s 15)"
  by (auto simp: checkStationStatus_def not_sless_iff)

lemma checkStationFeedRates_Valid: "Valid (checkStationFeedRates i s r) = Valid r"
  by (simp add: checkStationFeedRates_def)

lemma checkStationSpeed_Valid:
  "Valid (checkStationSpeed i s r) = (Valid r \<and> (st_Speed s = 0 \<or> 50 \<le>s st_Speed s))"
  by (auto simp: checkStationSpeed_def not_sless_iff)

lemma checkStationPHead_Valid:
  "Valid (checkStationPHead i s r) = (Valid r \<and> (st_PHead s = 1 \<or> st_PHead s = 2))"
  by (auto simp: checkStationPHead_def)

lemma checkStationThreshold_Valid:
  "Valid (checkStationThreshold i s r) =
     (Valid r \<and> (st_NThreshold s = 0 \<or> (1 \<le>s st_NThreshold s \<and> st_NThreshold s \<le>s 256)))"
  by (auto simp: checkStationThreshold_def not_sless_iff)

lemma checkStationHeight_Valid:
  "Valid (checkStationHeight F i s r) =
     (Valid r \<and> \<not> f_lt F (f_const F 5) (st_Height s) \<and> \<not> f_lt F (st_Height s) (f_const F 0))"
  by (auto simp: checkStationHeight_def Let_def)

lemma checkComponentNo_Valid: "Valid (checkComponentNo i c r) = Valid r"
  by (simp add: checkComponentNo_def)

lemma checkComponentPHead_Valid:
  "Valid (checkComponentPHead i c r) = (Valid r \<and> (c_PHead c = 1 \<or> c_PHead c = 2))"
  by (auto simp: checkComponentPHead_def)

lemma checkComponentSTNo_Valid:
  "Valid (checkComponentSTNo ids i c r) = (Valid r \<and> ids (c_STNo c))"
  by (auto simp: checkComponentSTNo_def)

lemma checkComponentSkip_Valid: "Valid (checkComponentSkip m i c r) = Valid r"
  by (simp add: checkComponentSkip_def Let_def split: option.split)

lemma checkComponentCoords_Valid: "Valid (checkComponentCoords F i c r) = Valid r"
  by (simp add: checkComponentCoords_def)

lemma checkComponentAngle_Valid: "Valid (checkComponentAngle F i c r) = Valid r"
  by (simp add: checkComponentAngle_def)

lemma checkComponentSpeed_Valid:
  "Valid (checkComponentSpeed i c r) = (Valid r \<and> (c_Speed c = 0 \<or> 50 \<le>s c_Speed c))"
  by (auto simp: checkComponentSpeed_def not_sless_iff)

lemma checkComponentHeight_Valid: "Valid (checkComponentHeight F sts i c r) = Valid r"
  by (simp add: checkComponentHeight_def split: option.split)

lemma checkPCBSize_Valid: "Valid (checkPCBSize F p r) = Valid r"
  by (cases p) (simp add: checkPCBSize_def Let_def)

lemma checkPanelArray_Valid: "Valid (checkPanelArray pa r) = (Valid r \<and> panelArrayOK pa)"
  by (auto simp: checkPanelArray_def panelArrayOK_def not_sless_iff split: list.split)

lemma checkFilename_Valid: "Valid (checkFilename fn r) = (Valid r \<and> fn \<noteq> [])"
  by (auto simp: checkFilename_def)

lemmas check_Valid =
  forRange_Valid_warn [of checkStationNo, OF checkStationNo_Valid]
  forRange_Valid [of checkStationStatus, OF checkStationStatus_Valid]
  forRange_Valid_warn [of checkStationFeedRates, OF checkStationFeedRates_Valid]
  forRange_Valid [of checkStationSpeed, OF checkStationSpeed_Valid]
  forRange_Valid [of checkStationPHead, OF checkStationPHead_Valid]
  forRange_Valid [of checkStationThreshold, OF checkStationThreshold_Valid]
  forRange_Valid [of "checkStationHeight F", OF checkStationHeight_Valid]
  forRange_Valid_warn [of checkComponentNo, OF checkComponentNo_Valid]
  forRange_Valid [of checkComponentPHead, OF checkComponentPHead_Valid]
  forRange_Valid [of "checkComponentSTNo ids", OF checkComponentSTNo_Valid]
  forRange_Valid_warn [of "checkComponentSkip m", OF checkComponentSkip_Valid]
  forRange_Valid_warn [of "checkComponentCoords F", OF checkComponentCoords_Valid]
  forRange_Valid_warn [of "checkComponentAngle F", OF checkComponentAngle_Valid]
  forRange_Valid [of checkComponentSpeed, OF checkComponentSpeed_Valid]
  forRange_Valid_warn [of "checkComponentHeight F sts", OF checkComponentHeight_Valid]
  checkPCBSize_Valid checkPanelArray_Valid checkFilename_Valid
  for F ids m sts

text \<open>The model is valid exactly when no rule that raises an error is broken.\<close>

lemma Valid_ValidateDPV:
  "Valid (ValidateDPV F xf fn) \<longleftrightarrow>
     distinct (map st_ID (filter (\<lambda>s. \<not> st_DNP s) (Stations xf)))
     \<and> (\<forall>s \<in> set (filter (\<lambda>s. \<not> st_DNP s) (Stations xf)).
           \<not> 100 \<le>s st_ID s \<and> stationConstraints F s)
     \<and> (\<forall>c \<in> set (filter (\<lambda>c. \<not> c_DNP c) (Components xf)).
           componentConstraints c
           \<and> c_STNo c \<in> st_ID ` set (filter (\<lambda>s. \<not> st_DNP s) (Stations xf)))
     \<and> panelArrayOK (PanelArray xf)
     \<and> fn \<noteq> []"
proof -
  obtain ids r where f: "forRange checkStationID (filter (\<lambda>s. \<not> st_DNP s) (Stations xf))
      (\<lambda>_. False, \<lparr>Valid = True, Errors = [], Warnings = []\<rparr>) = (ids, r)"
    by (cases "forRange checkStationID (filter (\<lambda>s. \<not> st_DNP s) (Stations xf))
      (\<lambda>_. False, \<lparr>Valid = True, Errors = [], Warnings = []\<rparr>)")
  from forRange_checkStationID [OF f]
  have ids: "ids = (\<lambda>x. x \<in> st_ID ` set (filter (\<lambda>s. \<not> st_DNP s) (Stations xf)))"
    and v: "Valid r = (distinct (map st_ID (filter (\<lambda>s. \<not> st_DNP s) (Stations xf)))
                \<and> (\<forall>s \<in> set (filter (\<lambda>s. \<not> st_DNP s) (Stations xf)). \<not> 100 \<le>s st_ID s))"
    by simp_all
  show ?thesis
    unfolding ValidateDPV_def Let_def f prod.case
    by (simp only: check_Valid Valid_addWarning if_distrib [of Valid] if_cancel v ids
          stationConstraints_def componentConstraints_def) blast
qed

subsection \<open>The flag \<open>valid\<close> and the list of errors\<close>

lemma consistent_addError: "consistent (addError r e)"
  by (simp add: consistent_def)

lemma consistent_addWarning: "consistent r \<Longrightarrow> consistent (addWarning r w)"
  by (simp add: consistent_def)

lemma consistent_if_warn:
  "consistent r \<Longrightarrow> consistent (if c then addWarning r w else r)"
  by (simp add: consistent_addWarning)

lemma fold_enumerate_consistent:
  assumes "\<And>i x r. consistent r \<Longrightarrow> consistent (body i x r)"
  shows "consistent r \<Longrightarrow> consistent (fold (\<lambda>(i, x). body i x) (enumerate n xs) r)"
  by (induction xs arbitrary: n r) (simp_all add: assms)

lemma forRange_consistent:
  assumes "\<And>i x r. consistent r \<Longrightarrow> consistent (body i x r)"
  shows "consistent r \<Longrightarrow> consistent (forRange body xs r)"
  unfolding forRange_def by (rule fold_enumerate_consistent) (rule assms)

lemma checkStationID_consistent:
  "consistent r \<Longrightarrow> consistent (snd (checkStationID i s (ids, r)))"
  by (simp add: checkStationID_def Let_def consistent_addError consistent_addWarning)

lemma checkStationID_fold_consistent:
  "consistent r \<Longrightarrow> consistent (snd (fold (\<lambda>(i, s). checkStationID i s) (enumerate n sts) (ids, r)))"
proof (induction sts arbitrary: n ids r)
  case Nil
  then show ?case by simp
next
  case (Cons s sts)
  obtain ids1 r1 where step: "checkStationID n s (ids, r) = (ids1, r1)"
    by (cases "checkStationID n s (ids, r)")
  with checkStationID_consistent [OF Cons.prems, of n s ids] have "consistent r1" by simp
  from Cons.IH [OF this] step show ?case by simp
qed

lemma check_consistent:
  "consistent r \<Longrightarrow> consistent (checkStationNo i s r)"
  "consistent r \<Longrightarrow> consistent (checkStationStatus i s r)"
  "consistent r \<Longrightarrow> consistent (checkStationFeedRates i s r)"
  "consistent r \<Longrightarrow> consistent (checkStationSpeed i s r)"
  "consistent r \<Longrightarrow> consistent (checkStationPHead i s r)"
  "consistent r \<Longrightarrow> consistent (checkStationThreshold i s r)"
  "consistent r \<Longrightarrow> consistent (checkStationHeight F i s r)"
  "consistent r \<Longrightarrow> consistent (checkComponentNo i c r)"
  "consistent r \<Longrightarrow> consistent (checkComponentPHead i c r)"
  "consistent r \<Longrightarrow> consistent (checkComponentSTNo stationIDs i c r)"
  "consistent r \<Longrightarrow> consistent (checkComponentSkip m i c r)"
  "consistent r \<Longrightarrow> consistent (checkComponentCoords F i c r)"
  "consistent r \<Longrightarrow> consistent (checkComponentAngle F i c r)"
  "consistent r \<Longrightarrow> consistent (checkComponentSpeed i c r)"
  "consistent r \<Longrightarrow> consistent (checkComponentHeight F sts i c r)"
  "consistent r \<Longrightarrow> consistent (checkPCBSize F p r)"
  "consistent r \<Longrightarrow> consistent (checkPanelArray pa r)"
  "consistent r \<Longrightarrow> consistent (checkFilename fn r)"
  by (auto simp: checkStationNo_def checkStationStatus_def checkStationFeedRates_def
      checkStationSpeed_def checkStationPHead_def checkStationThreshold_def
      checkStationHeight_def checkComponentNo_def checkComponentPHead_def
      checkComponentSTNo_def checkComponentSkip_def checkComponentCoords_def
      checkComponentAngle_def checkComponentSpeed_def checkComponentHeight_def
      checkPCBSize_def checkPanelArray_def checkFilename_def Let_def
      consistent_addError consistent_addWarning split: option.split list.split prod.split)

lemma consistent_ValidateDPV: "consistent (ValidateDPV F xf fn)"
proof -
  obtain ids r where f: "forRange checkStationID (filter (\<lambda>s. \<not> st_DNP s) (Stations xf))
      (\<lambda>_. False, \<lparr>Valid = True, Errors = [], Warnings = []\<rparr>) = (ids, r)"
    by (cases "forRange checkStationID (filter (\<lambda>s. \<not> st_DNP s) (Stations xf))
      (\<lambda>_. False, \<lparr>Valid = True, Errors = [], Warnings = []\<rparr>)")
  have "consistent \<lparr>Valid = True, Errors = [], Warnings = []\<rparr>"
    by (simp add: consistent_def)
  from checkStationID_fold_consistent [OF this, of 0 "filter (\<lambda>s. \<not> st_DNP s) (Stations xf)" "\<lambda>_. False"] f
  have r: "consistent r" by (simp add: forRange_def)
  show ?thesis
    unfolding ValidateDPV_def Let_def f prod.case
    by (intro check_consistent forRange_consistent consistent_if_warn r)
qed

lemma Valid_iff_no_Errors: "Valid (ValidateDPV F xf fn) \<longleftrightarrow> Errors (ValidateDPV F xf fn) = []"
  using consistent_ValidateDPV [of F xf fn] by (simp add: consistent_def)

subsection \<open>C8: one feeder with the reserved id 150\<close>

lemma forRange_single: "forRange body [x] r = body 0 x r"
  by (simp add: forRange_def)

lemma forRange_Nil: "forRange body [] r = r"
  by (simp add: forRange_def)

lemma fmtInt_150: "fmtInt 150 = ''150''"
  by (simp add: fmtInt_def showNat.simps)

text \<open>
  C8. The model has exactly one active feeder; its \<open>id\<close> is 150 and it meets every other
  constraint on a feeder; no placement is active; the panel tables are those of a new
  model; the file name is not empty and ends in \<open>.dpv\<close>. Then \<open>ValidateDPV\<close> reports
  exactly one error, the one of type \<open>reserved_station_id\<close>, and \<open>valid\<close> is false.
\<close>

theorem validate_reserved_id_150:
  assumes "filter (\<lambda>s. \<not> st_DNP s) (Stations xf) = [s]"
    and "st_ID s = 150"
    and "stationConstraints F s"
    and "filter (\<lambda>c. \<not> c_DNP c) (Components xf) = []"
    and "PanelArray xf = PanelArray (NewXFile F now)"
    and "PanelCoord xf = PanelCoord (NewXFile F now)"
    and "fn \<noteq> []"
    and "HasSuffix (ToLower fn) ''.dpv''"
  shows "Errors (ValidateDPV F xf fn) =
           [\<lparr>e_Type = ''reserved_station_id'', e_Field = ''Station.ID'', e_Row = 0,
             e_Message = ''Station ID 150 is reserved (IDs >= 100 are machine-reserved and will cause head crashes)''\<rparr>]
         \<and> \<not> Valid (ValidateDPV F xf fn)"
proof -
  have id: "checkStationID 0 s (\<lambda>_. False, \<lparr>Valid = True, Errors = [], Warnings = []\<rparr>)
     = ((\<lambda>_. False)(150 := True),
        \<lparr>Valid = False,
         Errors = [\<lparr>e_Type = ''reserved_station_id'', e_Field = ''Station.ID'', e_Row = 0,
             e_Message = ''Station ID 150 is reserved (IDs >= 100 are machine-reserved and will cause head crashes)''\<rparr>],
         Warnings = []\<rparr>)"
    using assms(2)
    by (simp add: checkStationID_def Let_def addError_def addWarning_def fmtInt_150)
  have st: "0 \<le>s st_Status s" "st_Status s \<le>s 15" "st_Speed s = 0 \<or> 50 \<le>s st_Speed s"
    "st_PHead s = 1 \<or> st_PHead s = 2"
    "st_NThreshold s = 0 \<or> (1 \<le>s st_NThreshold s \<and> st_NThreshold s \<le>s 256)"
    "\<not> f_lt F (f_const F 5) (st_Height s)" "\<not> f_lt F (st_Height s) (f_const F 0)"
    using assms(3) by (simp_all add: stationConstraints_def)
  have e: "Errors (ValidateDPV F xf fn) =
           [\<lparr>e_Type = ''reserved_station_id'', e_Field = ''Station.ID'', e_Row = 0,
             e_Message = ''Station ID 150 is reserved (IDs >= 100 are machine-reserved and will cause head crashes)''\<rparr>]"
    unfolding ValidateDPV_def Let_def assms(1) assms(4) assms(5) forRange_single forRange_Nil
    unfolding id prod.case
    using st assms(7,8)
    by (auto simp: checkStationNo_def checkStationStatus_def checkStationFeedRates_def
        checkStationSpeed_def checkStationPHead_def checkStationThreshold_def
        checkStationHeight_def checkPCBSize_def maxPosition_def checkPanelArray_def
        checkFilename_def NewXFile_def Let_def not_sless_iff [symmetric] split: prod.split)
  with Valid_iff_no_Errors [of F xf fn] show ?thesis by simp
qed

text \<open>The theorem at the empty model with the feeder \<open>10k\<close> renumbered to 150.\<close>

theorem validate_reserved_id_150_witness:
  "filter (\<lambda>s. \<not> st_DNP s) (Stations (sampleFile\<lparr>Stations := [sampleStation\<lparr>st_ID := 150\<rparr>]\<rparr>))
     = [sampleStation\<lparr>st_ID := 150\<rparr>]
   \<and> stationConstraints F_rat (sampleStation\<lparr>st_ID := 150\<rparr>)
   \<and> HasSuffix (ToLower ''Job.DPV'') ''.dpv''
   \<and> Errors (ValidateDPV F_rat (sampleFile\<lparr>Stations := [sampleStation\<lparr>st_ID := 150\<rparr>]\<rparr>) ''Job.DPV'') =
           [\<lparr>e_Type = ''reserved_station_id'', e_Field = ''Station.ID'', e_Row = 0,
             e_Message = ''Station ID 150 is reserved (IDs >= 100 are machine-reserved and will cause head crashes)''\<rparr>]
   \<and> \<not> Valid (ValidateDPV F_rat (sampleFile\<lparr>Stations := [sampleStation\<lparr>st_ID := 150\<rparr>]\<rparr>) ''Job.DPV'')"
proof -
  have 1: "filter (\<lambda>s. \<not> st_DNP s) (Stations (sampleFile\<lparr>Stations := [sampleStation\<lparr>st_ID := 150\<rparr>]\<rparr>))
     = [sampleStation\<lparr>st_ID := 150\<rparr>]"
    by (simp add: sampleStation_def newStation_def)
  have 2: "st_ID (sampleStation\<lparr>st_ID := 150\<rparr>) = 150" by simp
  have 3: "stationConstraints F_rat (sampleStation\<lparr>st_ID := 150\<rparr>)"
    by (simp add: stationConstraints_def sampleStation_def newStation_def F_rat_def word_sle_eq)
  have 4: "filter (\<lambda>c. \<not> c_DNP c) (Components (sampleFile\<lparr>Stations := [sampleStation\<lparr>st_ID := 150\<rparr>]\<rparr>)) = []"
    by (simp add: sampleFile_def NewXFile_def)
  have 5: "PanelArray (sampleFile\<lparr>Stations := [sampleStation\<lparr>st_ID := 150\<rparr>]\<rparr>)
      = PanelArray (NewXFile F_rat sampleTime)"
    "PanelCoord (sampleFile\<lparr>Stations := [sampleStation\<lparr>st_ID := 150\<rparr>]\<rparr>)
      = PanelCoord (NewXFile F_rat sampleTime)"
    by (simp_all add: sampleFile_def)
  have 6: "''Job.DPV'' \<noteq> []" by simp
  have 7: "HasSuffix (ToLower ''Job.DPV'') ''.dpv''"
    by (simp add: HasSuffix_def ToLower_def toLowerChar_def)
  from validate_reserved_id_150 [OF 1 2 3 4 5 6 7] 1 3 7 show ?thesis by simp
qed

section \<open>Properties of the target-format generator\<close>

subsection \<open>Bits 1 and 2 of the flags\<close>

lemma bit_4_int: "bit (4::int) n = (n = 2)"
  using bit_exp_iff [of 2 n, where 'a = int] by simp

lemma bit_2_int: "bit (2::int) n = (n = 1)"
  using bit_exp_iff [of 1 n, where 'a = int] by simp

lemma and_4: "(x::goint) AND 4 = (if bit x 2 then 4 else 0)"
  by (rule bit_word_eqI) (auto simp: bit_and_iff bit_4_int)

lemma and_2: "(x::goint) AND 2 = (if bit x 1 then 2 else 0)"
  by (rule bit_word_eqI) (auto simp: bit_and_iff bit_2_int)

lemma bit_or_4: "bit ((x::goint) OR 4) n = (bit x n \<or> n = 2)"
  by (auto simp: bit_or_iff bit_4_int)

lemma bit_or_2: "bit ((x::goint) OR 2) n = (bit x n \<or> n = 1)"
  by (auto simp: bit_or_iff bit_2_int)

lemma bit_autoFixSkip:
  "m (c_STNo c) = Some st \<Longrightarrow>
   bit (autoFixSkip m c) n = (bit (c_Skip c) n \<or> (n = 2 \<and> bit st 2) \<or> (n = 1 \<and> bit st 1))"
  by (auto simp: autoFixSkip_def Let_def and_4 and_2 bit_or_4 bit_or_2)

lemma autoFixSkip_eq:
  "m (c_STNo c) = Some st \<Longrightarrow>
   autoFixSkip m c = c_Skip c OR (st AND 4) OR (st AND 2)"
  by (rule bit_word_eqI) (auto simp: bit_autoFixSkip bit_or_iff bit_and_iff bit_4_int bit_2_int)

lemma autoFixSkip_keeps_bits: "bit (c_Skip c) n \<Longrightarrow> bit (autoFixSkip m c) n"
  by (auto simp: autoFixSkip_def Let_def bit_or_4 bit_or_2 split: option.split)

subsection \<open>The feeders of the job file and the map of their flags\<close>

lemma usedStationIDs_fold:
  "fold (\<lambda>c m. m(c_STNo c := True)) cs m0 = (\<lambda>id. m0 id \<or> id \<in> c_STNo ` set cs)"
  by (induction cs arbitrary: m0) auto

lemma dpvActiveStations_eq:
  "dpvActiveStations xf =
     filter (\<lambda>s. st_ID s \<in> c_STNo ` set (dpvActiveComponents xf))
       (filter (\<lambda>s. \<not> st_DNP s) (Stations xf))"
  by (simp add: dpvActiveStations_def usedStationIDs_fold Let_def conj_commute)

lemma stationStatusMap_fold_other:
  "k \<notin> st_ID ` set sts \<Longrightarrow> fold (\<lambda>s m. m(st_ID s \<mapsto> st_Status s)) sts m k = m k"
  by (induction sts arbitrary: m) auto

lemma stationStatusMap_fold_lookup:
  "distinct (map st_ID sts) \<Longrightarrow> s \<in> set sts \<Longrightarrow>
   fold (\<lambda>s m. m(st_ID s \<mapsto> st_Status s)) sts m (st_ID s) = Some (st_Status s)"
proof (induction sts arbitrary: m)
  case Nil
  then show ?case by simp
next
  case (Cons t sts)
  show ?case
  proof (cases "s = t")
    case True
    with Cons.prems(1) have "st_ID t \<notin> st_ID ` set sts" by simp
    then have h: "fold (\<lambda>s m. m(st_ID s \<mapsto> st_Status s)) sts (m(st_ID t \<mapsto> st_Status t)) (st_ID t)
        = (m(st_ID t \<mapsto> st_Status t)) (st_ID t)"
      by (rule stationStatusMap_fold_other)
    have "fold (\<lambda>s m. m(st_ID s \<mapsto> st_Status s)) (t # sts) m (st_ID t)
        = fold (\<lambda>s m. m(st_ID s \<mapsto> st_Status s)) sts (m(st_ID t \<mapsto> st_Status t)) (st_ID t)"
      by (simp only: fold_simps o_apply)
    also have "\<dots> = Some (st_Status t)"
      unfolding h by (simp only: fun_upd_same)
    finally show ?thesis unfolding True .
  next
    case False
    with Cons.prems have "s \<in> set sts" "distinct (map st_ID sts)" by simp_all
    from Cons.IH [OF this(2,1), of "m(st_ID t \<mapsto> st_Status t)"]
    show ?thesis by (simp only: fold_simps o_apply)
  qed
qed

lemma stationStatusMap_lookup:
  "distinct (map st_ID sts) \<Longrightarrow> s \<in> set sts \<Longrightarrow>
   stationStatusMap sts (st_ID s) = Some (st_Status s)"
  unfolding stationStatusMap_def by (rule stationStatusMap_fold_lookup)

text \<open>In a valid model every active placement refers to exactly one active feeder, and
  the map of \<open>GenerateDPV\<close> gives the flags of that feeder.\<close>

lemma valid_referenced_feeder:
  assumes v: "Valid (ValidateDPV F xf fn)" and c: "c \<in> set (dpvActiveComponents xf)"
  shows "\<exists>s \<in> set (Stations xf). \<not> st_DNP s \<and> st_ID s = c_STNo c"
    and "s \<in> set (Stations xf) \<Longrightarrow> \<not> st_DNP s \<Longrightarrow> st_ID s = c_STNo c \<Longrightarrow>
         stationStatusMap (dpvActiveStations xf) (c_STNo c) = Some (st_Status s)"
proof -
  let ?act = "filter (\<lambda>s. \<not> st_DNP s) (Stations xf)"
  from v have d: "distinct (map st_ID ?act)"
    and r: "\<forall>c \<in> set (filter (\<lambda>c. \<not> c_DNP c) (Components xf)). c_STNo c \<in> st_ID ` set ?act"
    by (simp_all add: Valid_ValidateDPV)
  from c r have "c_STNo c \<in> st_ID ` set ?act" by (simp add: dpvActiveComponents_def)
  then show "\<exists>s \<in> set (Stations xf). \<not> st_DNP s \<and> st_ID s = c_STNo c" by auto
  assume s: "s \<in> set (Stations xf)" "\<not> st_DNP s" "st_ID s = c_STNo c"
  from d have d2: "distinct (map st_ID (dpvActiveStations xf))"
    unfolding dpvActiveStations_eq by (rule distinct_map_filter)
  from s c have "s \<in> set (dpvActiveStations xf)"
    unfolding dpvActiveStations_eq by auto
  from stationStatusMap_lookup [OF d2 this] s(3)
  show "stationStatusMap (dpvActiveStations xf) (c_STNo c) = Some (st_Status s)" by simp
qed

subsection \<open>The text of a valid model\<close>

lemma GenerateDPV_valid:
  "Valid (ValidateDPV F xf fn) \<Longrightarrow>
   GenerateDPV F now xf fn =
     (dpvHeader now xf fn
      @ dpvStationTable F (dpvActiveStations xf)
      @ dpvPanelArrayTable F (PanelArray xf)
      @ dpvPanelCoordTable F (PanelCoord xf)
      @ dpvEComponentTable F (GlobalOffset xf) (stationStatusMap (dpvActiveStations xf))
          (dpvActiveComponents xf)
      @ dpvICTrayTable @ dpvPcbCalibTable @ dpvCalibPointTable @ dpvCalibFatorTable, None, xf)"
  by (simp add: GenerateDPV_def Let_def)


lemma concat_map_nth:
  "i < length xs \<Longrightarrow>
   concat (map f xs) = concat (map f (take i xs)) @ f (xs ! i) @ concat (map f (drop (Suc i) xs))"
  by (metis concat.simps(2) concat_append id_take_nth_drop list.simps(9) map_append)

lemma ecomponent_row_in_table:
  assumes "i < length cs"
  shows "\<exists>pre post. dpvEComponentTable F off m cs
           = pre @ Join (ecomponentFields F off m i (cs ! i)) '','' @ CRLF @ post"
proof -
  let ?f = "\<lambda>(i, c). Join (ecomponentFields F off m i c) '','' @ CRLF"
  from assms have "i < length (enumerate 0 cs)" by simp
  from concat_map_nth [OF this, of ?f] assms
  have "concat (map ?f (enumerate 0 cs)) =
          concat (map ?f (take i (enumerate 0 cs)))
          @ (Join (ecomponentFields F off m i (cs ! i)) '','' @ CRLF)
          @ concat (map ?f (drop (Suc i) (enumerate 0 cs)))"
    by (simp add: nth_enumerate_eq)
  then show ?thesis
    unfolding dpvEComponentTable_def by (metis append.assoc)
qed

lemma generate_writes_row:
  assumes "Valid (ValidateDPV F xf fn)" and "i < length (dpvActiveComponents xf)"
  shows "\<exists>pre post. fst (GenerateDPV F now xf fn) =
           pre @ Join (ecomponentFields F (GlobalOffset xf) (stationStatusMap (dpvActiveStations xf)) i
                         (dpvActiveComponents xf ! i)) '','' @ CRLF @ post"
proof -
  from ecomponent_row_in_table [OF assms(2), of F "GlobalOffset xf"
      "stationStatusMap (dpvActiveStations xf)"]
  obtain pre post where
    "dpvEComponentTable F (GlobalOffset xf) (stationStatusMap (dpvActiveStations xf))
       (dpvActiveComponents xf)
     = pre @ Join (ecomponentFields F (GlobalOffset xf) (stationStatusMap (dpvActiveStations xf)) i
                     (dpvActiveComponents xf ! i)) '','' @ CRLF @ post"
    by auto
  then have "fst (GenerateDPV F now xf fn) =
      (dpvHeader now xf fn @ dpvStationTable F (dpvActiveStations xf)
        @ dpvPanelArrayTable F (PanelArray xf) @ dpvPanelCoordTable F (PanelCoord xf) @ pre)
      @ Join (ecomponentFields F (GlobalOffset xf) (stationStatusMap (dpvActiveStations xf)) i
                (dpvActiveComponents xf ! i)) '','' @ CRLF
      @ (post @ dpvICTrayTable @ dpvPcbCalibTable @ dpvCalibPointTable @ dpvCalibFatorTable)"
    by (simp add: GenerateDPV_valid [OF assms(1)])
  then show ?thesis by blast
qed

subsection \<open>The sample job\<close>

lemma sampleJob_active:
  "dpvActiveComponents sampleJob = [sampleComponent\<lparr>c_Skip := 1\<rparr>]"
  "filter (\<lambda>s. \<not> st_DNP s) (Stations sampleJob) = [sampleStation\<lparr>st_Status := 6\<rparr>]"
  "filter (\<lambda>c. \<not> c_DNP c) (Components sampleJob) = [sampleComponent\<lparr>c_Skip := 1\<rparr>]"
  by (simp_all add: sampleJob_def dpvActiveComponents_def sampleComponent_def newComponent_def
      sampleStation_def newStation_def)

lemma sampleJob_valid: "Valid (ValidateDPV F_rat sampleJob ''job.dpv'')"
  unfolding Valid_ValidateDPV sampleJob_active
  by (simp add: sampleJob_def sampleFile_def NewXFile_def sampleComponent_def newComponent_def
      sampleStation_def newStation_def F_rat_def stationConstraints_def componentConstraints_def
      panelArrayOK_def word_sle_eq)


subsection \<open>C2: generation validates first\<close>



subsection \<open>C3: the flags written for a placement\<close>

text \<open>
  C3. In a model that passes validation, the \<open>i\<close>-th active placement \<open>c\<close> refers to an
  active feeder, and for the active feeder \<open>s\<close> it refers to, the \<open>Skip\<close> field of the
  row that \<open>GenerateDPV\<close> writes for \<open>c\<close> is the stored \<open>Skip\<close> with bit 2 set when bit 2
  of the status of \<open>s\<close> is set and bit 1 set when bit 1 of that status is set. Every bit
  of the stored \<open>Skip\<close> is a bit of the written one.
\<close>

theorem generate_sets_vision_and_vacuum_bits:
  assumes "Valid (ValidateDPV F xf fn)"
    and "i < length (dpvActiveComponents xf)"
    and "c = dpvActiveComponents xf ! i"
    and "row = ecomponentFields F (GlobalOffset xf) (stationStatusMap (dpvActiveStations xf)) i c"
  shows "(\<exists>pre post. fst (GenerateDPV F now xf fn) = pre @ Join row '','' @ CRLF @ post)
     \<and> (\<exists>s \<in> set (Stations xf). \<not> st_DNP s \<and> st_ID s = c_STNo c)
     \<and> (\<forall>s \<in> set (Stations xf). \<not> st_DNP s \<and> st_ID s = c_STNo c \<longrightarrow>
           row ! 9 = fmtInt (c_Skip c OR (st_Status s AND 4) OR (st_Status s AND 2))
           \<and> (\<forall>n. bit (c_Skip c) n \<longrightarrow> bit (c_Skip c OR (st_Status s AND 4) OR (st_Status s AND 2)) n))"
proof -
  from assms(2,3) have c: "c \<in> set (dpvActiveComponents xf)" by simp
  have 1: "\<exists>pre post. fst (GenerateDPV F now xf fn) = pre @ Join row '','' @ CRLF @ post"
    unfolding assms(3,4) by (rule generate_writes_row [OF assms(1,2)])
  have 2: "\<exists>s \<in> set (Stations xf). \<not> st_DNP s \<and> st_ID s = c_STNo c"
    by (rule valid_referenced_feeder(1) [OF assms(1) c])
  have 3: "\<forall>s \<in> set (Stations xf). \<not> st_DNP s \<and> st_ID s = c_STNo c \<longrightarrow>
           row ! 9 = fmtInt (c_Skip c OR (st_Status s AND 4) OR (st_Status s AND 2))
           \<and> (\<forall>n. bit (c_Skip c) n \<longrightarrow> bit (c_Skip c OR (st_Status s AND 4) OR (st_Status s AND 2)) n)"
  proof (intro ballI impI)
    fix s assume s: "s \<in> set (Stations xf)" "\<not> st_DNP s \<and> st_ID s = c_STNo c"
    from valid_referenced_feeder(2) [OF assms(1) c s(1)] s(2)
    have "stationStatusMap (dpvActiveStations xf) (c_STNo c) = Some (st_Status s)" by simp
    with autoFixSkip_eq [of "stationStatusMap (dpvActiveStations xf)" c "st_Status s"]
    have "row ! 9 = fmtInt (c_Skip c OR (st_Status s AND 4) OR (st_Status s AND 2))"
      by (simp add: assms(4) ecomponentFields_def Let_def)
    then show "row ! 9 = fmtInt (c_Skip c OR (st_Status s AND 4) OR (st_Status s AND 2))
           \<and> (\<forall>n. bit (c_Skip c) n \<longrightarrow> bit (c_Skip c OR (st_Status s AND 4) OR (st_Status s AND 2)) n)"
      by (simp add: bit_or_iff)
  qed
  from 1 2 3 show ?thesis by blast
qed

text \<open>The theorem at the sample job: the stored flags are 1, the status of the feeder is
  6, and the flags written are 7.\<close>

theorem generate_sets_bits_witness:
  "Valid (ValidateDPV F_rat sampleJob ''job.dpv'')
   \<and> c_Skip (dpvActiveComponents sampleJob ! 0) = 1
   \<and> ecomponentFields F_rat (GlobalOffset sampleJob) (stationStatusMap (dpvActiveStations sampleJob))
        0 (dpvActiveComponents sampleJob ! 0) ! 9 = ''7''"
proof -
  have s: "sampleStation\<lparr>st_Status := 6\<rparr> \<in> set (Stations sampleJob)"
    "\<not> st_DNP (sampleStation\<lparr>st_Status := 6\<rparr>)
     \<and> st_ID (sampleStation\<lparr>st_Status := 6\<rparr>) = c_STNo (dpvActiveComponents sampleJob ! 0)"
    by (simp_all add: sampleJob_active)
       (simp_all add: sampleJob_def sampleStation_def newStation_def sampleComponent_def
          newComponent_def)
  have l: "0 < length (dpvActiveComponents sampleJob)" by (simp add: sampleJob_active)
  from generate_sets_vision_and_vacuum_bits [OF sampleJob_valid l refl refl, of sampleTime] s
  have "ecomponentFields F_rat (GlobalOffset sampleJob) (stationStatusMap (dpvActiveStations sampleJob))
        0 (dpvActiveComponents sampleJob ! 0) ! 9
        = fmtInt (c_Skip (dpvActiveComponents sampleJob ! 0) OR (st_Status (sampleStation\<lparr>st_Status := 6\<rparr>) AND 4)
             OR (st_Status (sampleStation\<lparr>st_Status := 6\<rparr>) AND 2))"
    by blast
  moreover have "c_Skip (dpvActiveComponents sampleJob ! 0) = 1" by (simp add: sampleJob_active)
  moreover have "fmtInt (1 OR (6 AND 4) OR (6 AND 2)) = ''7''"
    by (simp add: fmtInt_def showNat.simps)
  ultimately show ?thesis using sampleJob_valid by simp
qed

subsection \<open>C6: the offset, and the model after the call\<close>

text \<open>
  C6. In a model that passes validation, the row that \<open>GenerateDPV\<close> writes for the \<open>i\<close>-th
  active placement has as its position the stored position plus the offset of the
  model (both formatted by \<open>%.2f\<close>). And in any model, the model after the call, which
  includes the validation, is the model before it.
\<close>

theorem generate_adds_offset_and_keeps_model:
  "(Valid (ValidateDPV F xf fn) \<and> i < length (dpvActiveComponents xf) \<longrightarrow>
      (\<exists>pre post. fst (GenerateDPV F now xf fn) =
         pre @ Join (ecomponentFields F (GlobalOffset xf) (stationStatusMap (dpvActiveStations xf)) i
                       (dpvActiveComponents xf ! i)) '','' @ CRLF @ post)
      \<and> ecomponentFields F (GlobalOffset xf) (stationStatusMap (dpvActiveStations xf)) i
           (dpvActiveComponents xf ! i) ! 5
         = f_fmt2 F (f_add F (c_DeltX (dpvActiveComponents xf ! i)) (go_X (GlobalOffset xf)))
      \<and> ecomponentFields F (GlobalOffset xf) (stationStatusMap (dpvActiveStations xf)) i
           (dpvActiveComponents xf ! i) ! 6
         = f_fmt2 F (f_add F (c_DeltY (dpvActiveComponents xf ! i)) (go_Y (GlobalOffset xf))))
   \<and> snd (snd (GenerateDPV F now xf fn)) = xf"
proof -
  have "snd (snd (GenerateDPV F now xf fn)) = xf"
    by (simp add: GenerateDPV_def Let_def)
  moreover have "Valid (ValidateDPV F xf fn) \<and> i < length (dpvActiveComponents xf) \<longrightarrow>
      (\<exists>pre post. fst (GenerateDPV F now xf fn) =
         pre @ Join (ecomponentFields F (GlobalOffset xf) (stationStatusMap (dpvActiveStations xf)) i
                       (dpvActiveComponents xf ! i)) '','' @ CRLF @ post)"
    using generate_writes_row [of F xf fn i now] by blast
  ultimately show ?thesis by (simp add: ecomponentFields_def Let_def)
qed

text \<open>The theorem at the sample job: the placement stored at (1, 2) is written at
  (11, 22).\<close>

lemma fmt2_rat_11_22: "fmt2_rat 11 = ''11.00''" "fmt2_rat 22 = ''22.00''"
  by (simp_all add: fmt2_rat_def fmt02d_def showNat.simps)

theorem generate_adds_offset_witness:
  "Valid (ValidateDPV F_rat sampleJob ''job.dpv'')
   \<and> c_DeltX (dpvActiveComponents sampleJob ! 0) = 1
   \<and> c_DeltY (dpvActiveComponents sampleJob ! 0) = 2
   \<and> ecomponentFields F_rat (GlobalOffset sampleJob) (stationStatusMap (dpvActiveStations sampleJob))
        0 (dpvActiveComponents sampleJob ! 0) ! 5 = ''11.00''
   \<and> ecomponentFields F_rat (GlobalOffset sampleJob) (stationStatusMap (dpvActiveStations sampleJob))
        0 (dpvActiveComponents sampleJob ! 0) ! 6 = ''22.00''
   \<and> snd (snd (GenerateDPV F_rat sampleTime sampleJob ''job.dpv'')) = sampleJob"
proof -
  have l: "0 < length (dpvActiveComponents sampleJob)" by (simp add: sampleJob_active)
  have p: "c_DeltX (dpvActiveComponents sampleJob ! 0) = 1"
    "c_DeltY (dpvActiveComponents sampleJob ! 0) = 2"
    "go_X (GlobalOffset sampleJob) = 10" "go_Y (GlobalOffset sampleJob) = 20"
    by (simp_all add: sampleJob_active)
       (simp_all add: sampleJob_def sampleComponent_def newComponent_def)
  from generate_adds_offset_and_keeps_model [of F_rat sampleJob "''job.dpv''" 0 sampleTime]
    sampleJob_valid l
  have "ecomponentFields F_rat (GlobalOffset sampleJob) (stationStatusMap (dpvActiveStations sampleJob))
        0 (dpvActiveComponents sampleJob ! 0) ! 5
        = f_fmt2 F_rat (f_add F_rat (c_DeltX (dpvActiveComponents sampleJob ! 0)) (go_X (GlobalOffset sampleJob)))"
    and "ecomponentFields F_rat (GlobalOffset sampleJob) (stationStatusMap (dpvActiveStations sampleJob))
        0 (dpvActiveComponents sampleJob ! 0) ! 6
        = f_fmt2 F_rat (f_add F_rat (c_DeltY (dpvActiveComponents sampleJob ! 0)) (go_Y (GlobalOffset sampleJob)))"
    and "snd (snd (GenerateDPV F_rat sampleTime sampleJob ''job.dpv'')) = sampleJob"
    by blast+
  with p sampleJob_valid show ?thesis
    by (simp add: F_rat_def fmt2_rat_11_22)
qed

section \<open>Properties of the source-format importer\<close>





















section \<open>Properties of the feeder-format importer\<close>

subsection \<open>Decimal numbers written and read back\<close>











subsection \<open>Trimming\<close>




subsection \<open>A CSV record written and read back\<close>






subsection \<open>A \<open>Station\<close> row written and read back\<close>













subsection \<open>The lines of the export\<close>

















subsection \<open>C4: the export of the feeders read back\<close>












end
